theory Spec2Isabelle
  imports Main
begin

section \<open>q2-chemistree: running SIRIUS from \<open>_fingerprint.py\<close>\<close>

text \<open>
  The module shells out to the SIRIUS executable in three stages. Everything it does is
  an effect on the process it runs in: it reads and writes \<open>os.environ\<close>, asks the file
  system whether a path exists, prints, opens a file and starts a child process. The
  model threads a record of that world through every function and returns it together
  with the result; an exception is the \<open>Inl\<close> of a sum, and the world it leaves behind is
  returned with it, as a Python exception leaves the mutations made before it.

  Strings are \<open>char list\<close>. Paths follow POSIX, the platform SIRIUS is run on here.
  Environment values are taken free of NUL bytes, so that \<open>os.environ[k] = v\<close> stores.
\<close>

subsection \<open>The Python library functions the module calls\<close>

text \<open>\<open>str\<close> on an \<open>int\<close>: decimal digits, a leading \<open>-\<close> when negative.\<close>

definition digit_char :: "nat \<Rightarrow> char" where
  "digit_char d = ''0123456789'' ! d"

fun str_nat :: "nat \<Rightarrow> string" where
  "str_nat n = (if n < 10 then [digit_char n] else str_nat (n div 10) @ [digit_char (n mod 10)])"

declare str_nat.simps [simp del]

definition str_int :: "int \<Rightarrow> string" where
  "str_int i = (if i < 0 then CHR ''-'' # str_nat (nat (- i)) else str_nat (nat i))"

text \<open>\<open>sep.join(xs)\<close>.\<close>

fun join_str :: "string \<Rightarrow> string list \<Rightarrow> string" where
  "join_str sep [] = []"
| "join_str sep [x] = x"
| "join_str sep (x # y # ys) = x @ sep @ join_str sep (y # ys)"

text \<open>
  \<open>os.path.join(a, b)\<close> of \<open>posixpath\<close>: an absolute \<open>b\<close> replaces \<open>a\<close>; otherwise a
  separator is put between the two unless \<open>a\<close> is empty or already ends with one.
\<close>

definition path_join :: "string \<Rightarrow> string \<Rightarrow> string" where
  "path_join a b =
     (if b \<noteq> [] \<and> hd b = CHR ''/'' then b
      else if a = [] then a @ b
      else if last a = CHR ''/'' then a @ b
      else a @ ''/'' @ b)"

subsection \<open>The world: environment, file system, terminal, child processes\<close>

type_synonym environment = "string \<rightharpoonup> string"

record os =
  environ :: environment
    \<comment> \<open>\<open>os.environ\<close>\<close>
  fs :: "string set"
    \<comment> \<open>the paths for which \<open>os.path.exists\<close> holds\<close>
  stdout :: string
    \<comment> \<open>what \<open>print\<close> has written\<close>
  env_writes :: "(string \<times> string) list"
    \<comment> \<open>every assignment \<open>os.environ[k] = v\<close> made so far, in order\<close>
  spawned :: "(string list \<times> string \<times> environment) list"
    \<comment> \<open>every child process started so far: its command, the file its standard output
        goes to, and the environment it inherited\<close>

datatype error =
    TypeError
      \<comment> \<open>calling \<open>None\<close>: \<open>constructor()\<close> with the default \<open>constructor=None\<close>\<close>
  | OSError string
      \<comment> \<open>\<open>raise OSError(msg)\<close>\<close>
  | OpenError string
      \<comment> \<open>\<open>open(fp, 'w')\<close> failed\<close>
  | SpawnError "string list"
      \<comment> \<open>\<open>subprocess.run\<close> could not start the program\<close>
  | CalledProcessError int "string list"
      \<comment> \<open>\<open>subprocess.run(..., check=True)\<close>: the child's nonzero return code and its
          command\<close>
  | ConstructorError string
      \<comment> \<open>whatever a directory-format constructor raises\<close>

text \<open>
  The directory formats of \<open>_semantics.py\<close> are not part of this module. The module uses
  two things of such an object: the attribute \<open>path\<close> (through \<open>str\<close>) and the method
  \<open>get_path()\<close>. An object is the pair of what the two give.
\<close>

record dirfmt =
  path :: string
  get_path :: string

type_synonym 'a result = "(error + 'a) \<times> os"

type_synonym constructor = "os \<Rightarrow> dirfmt result"

text \<open>
  What the module does not decide itself: whether \<open>open(fp, 'w')\<close> succeeds, how the
  child process started with a command ends (\<open>None\<close>: it could not be started; \<open>Some rc\<close>:
  it ran and returned \<open>rc\<close>), and the three directory-format classes the stages hand to
  \<open>artifactory\<close>, each a constructor that may touch the world.
\<close>

record platform =
  can_open :: "string \<Rightarrow> bool"
  child :: "string list \<Rightarrow> int option"
  SiriusDirFmt :: constructor
  ZodiacDirFmt :: constructor
  CSIDirFmt :: constructor

definition print_out :: "string \<Rightarrow> string \<Rightarrow> os \<Rightarrow> os" where
  \<comment> \<open>\<open>print(text, end=e)\<close>\<close>
  "print_out text e s = s\<lparr>stdout := stdout s @ text @ e\<rparr>"

definition environ_get :: "os \<Rightarrow> string \<Rightarrow> string \<Rightarrow> string" where
  \<comment> \<open>\<open>os.environ.get(k, default)\<close>\<close>
  "environ_get s k d = (case environ s k of None \<Rightarrow> d | Some v \<Rightarrow> v)"

definition environ_set :: "string \<Rightarrow> string \<Rightarrow> os \<Rightarrow> os" where
  \<comment> \<open>\<open>os.environ[k] = v\<close>\<close>
  "environ_set k v s = s\<lparr>environ := (environ s)(k \<mapsto> v), env_writes := env_writes s @ [(k, v)]\<rparr>"

definition path_exists :: "os \<Rightarrow> string \<Rightarrow> bool" where
  \<comment> \<open>\<open>os.path.exists(p)\<close>\<close>
  "path_exists s p = (p \<in> fs s)"

definition nl :: string where
  "nl = [CHR 0x0A]"

subsection \<open>\<open>run_command\<close>\<close>

definition run_command :: "platform \<Rightarrow> string list \<Rightarrow> string \<Rightarrow> bool \<Rightarrow> os \<Rightarrow> unit result" where
  "run_command P cmd output_fp verbose s =
     (let s1 =
        (if verbose then
           print_out (join_str '' '' cmd) (nl @ nl)
             (print_out (nl @ ''Command:'') '' ''
               (print_out
                  (''The command being run is below. This command cannot ''
                   @ ''be manually re-run as it will depend on temporary files that ''
                   @ ''no longer exist.'') nl
                 (print_out
                    (''Running external command line application. This may print ''
                     @ ''messages to stdout and/or stderr.'') nl s)))
         else s)
      in if can_open P output_fp then
           (let s2 = s1\<lparr>fs := insert output_fp (fs s1)\<rparr>
            in case child P cmd of
                 None \<Rightarrow> (Inl (SpawnError cmd), s2)
               | Some rc \<Rightarrow>
                   (let s3 = s2\<lparr>spawned := spawned s2 @ [(cmd, output_fp, environ s2)]\<rparr>
                    in if rc = 0 then (Inr (), s3)
                       else (Inl (CalledProcessError rc cmd), s3)))
         else (Inl (OpenError output_fp), s1))"

subsection \<open>\<open>artifactory\<close>\<close>

definition artifactory ::
  "platform \<Rightarrow> string \<Rightarrow> string list \<Rightarrow> string option \<Rightarrow> constructor option \<Rightarrow> os
     \<Rightarrow> dirfmt result" where
  "artifactory P sirius_path parameters java_flags constructor s =
     (case constructor of
        None \<Rightarrow> (Inl TypeError, s)
      | Some c \<Rightarrow>
         (case c s of
            (Inl e, s1) \<Rightarrow> (Inl e, s1)
          | (Inr artifact, s1) \<Rightarrow>
              if path_exists s1 sirius_path then
                (let sirius = path_join sirius_path ''sirius'';
                     initial_flags = environ_get s1 ''_JAVA_OPTIONS'' [];
                     s2 = (case java_flags of
                             None \<Rightarrow> s1
                           | Some jf \<Rightarrow>
                               environ_set ''_JAVA_OPTIONS'' (initial_flags @ '' '' @ jf) s1);
                     cmdsir = [sirius, ''-o'', get_path artifact] @ parameters
                 in case run_command P cmdsir (path_join (path artifact) ''stdout.txt'') True s2 of
                      (Inl e, s3) \<Rightarrow> (Inl e, s3)
                    | (Inr _, s3) \<Rightarrow>
                        (let s4 = (case java_flags of
                                     None \<Rightarrow> s3
                                   | Some jf \<Rightarrow> environ_set ''_JAVA_OPTIONS'' initial_flags s3)
                         in (Inr artifact, s4)))
              else (Inl (OSError ''SIRIUS could not be located''), s1)))"

subsection \<open>The three stages\<close>

text \<open>
  In \<open>compute_fragmentation_trees\<close> the local \<open>ionization_flag\<close> is assigned in the two
  branches of an \<open>if\<close>/\<open>elif\<close> with no \<open>else\<close>: after it the variable is bound to a string
  or not bound at all, which is the \<open>None\<close> here.
\<close>

definition ionization_flag :: "string \<Rightarrow> string option" where
  "ionization_flag ionization_mode =
     (if ionization_mode \<in> {''auto'', ''positive''} then Some ''--auto-charge''
      else if ionization_mode = ''negative'' then Some ''--ion=[M-H]-''
      else None)"

definition compute_fragmentation_trees ::
  "platform \<Rightarrow> string \<Rightarrow> dirfmt \<Rightarrow> int \<Rightarrow> string \<Rightarrow> int \<Rightarrow> int \<Rightarrow> int \<Rightarrow> int \<Rightarrow> string
     \<Rightarrow> string \<Rightarrow> string option \<Rightarrow> os \<Rightarrow> dirfmt result" where
  "compute_fragmentation_trees P sirius_path features ppm_max profile tree_timeout maxmz
       n_jobs num_candidates database ionization_mode java_flags s =
     (let ionization_flag = ionization_flag ionization_mode;
          params = [''--quiet'',
                    ''--initial-compound-buffer'', str_int 1,
                    ''--max-compound-buffer'', str_int 32, ''--profile'', profile,
                    ''--database'', database,
                    ''--candidates'', str_int num_candidates,
                    ''--processors'', str_int n_jobs,
                    ''--trust-ion-prediction'',
                    ''--maxmz'', str_int maxmz,
                    ''--tree-timeout'', str_int tree_timeout,
                    ''--ppm-max'', str_int ppm_max,
                    path_join (path features) ''features.mgf'']
      in artifactory P sirius_path params java_flags (Some (SiriusDirFmt P)) s)"

text \<open>
  \<open>zodiac_threshold\<close> is a Python float; the module only takes its \<open>str\<close>. The type of
  the threshold and its \<open>str\<close> are left open.
\<close>

definition rerank_molecular_formulas ::
  "platform \<Rightarrow> ('f \<Rightarrow> string) \<Rightarrow> string \<Rightarrow> dirfmt \<Rightarrow> dirfmt \<Rightarrow> 'f \<Rightarrow> int \<Rightarrow> string option
     \<Rightarrow> os \<Rightarrow> dirfmt result" where
  "rerank_molecular_formulas P str_float sirius_path fragmentation_trees features
       zodiac_threshold n_jobs java_flags s =
     (let params = [''--zodiac'', ''--sirius'',
                    get_path fragmentation_trees,
                    ''--thresholdfilter'', str_float zodiac_threshold,
                    ''--processors'', str_int n_jobs,
                    ''--spectra'', path_join (path features) ''features.mgf'']
      in artifactory P sirius_path params java_flags (Some (ZodiacDirFmt P)) s)"

definition predict_fingerprints ::
  "platform \<Rightarrow> string \<Rightarrow> dirfmt \<Rightarrow> int \<Rightarrow> int \<Rightarrow> string \<Rightarrow> string option \<Rightarrow> os
     \<Rightarrow> dirfmt result" where
  "predict_fingerprints P sirius_path molecular_formulas ppm_max n_jobs fingerid_db
       java_flags s =
     (let params = [''--processors'', str_int n_jobs, ''--fingerid'',
                    ''--fingerid-db'', fingerid_db, ''--ppm-max'', str_int ppm_max,
                    get_path molecular_formulas]
      in artifactory P sirius_path params java_flags (Some (CSIDirFmt P)) s)"

subsection \<open>Reading a run\<close>

text \<open>
  The world \<open>artifactory\<close> hands to \<open>run_command\<close>: the one the constructor left, with
  \<open>_JAVA_OPTIONS\<close> extended when \<open>java_flags\<close> is given (lines 36 to 39 of the source).
\<close>

definition with_java_flags :: "string option \<Rightarrow> os \<Rightarrow> os" where
  "with_java_flags java_flags s =
     (case java_flags of None \<Rightarrow> s
      | Some jf \<Rightarrow> environ_set ''_JAVA_OPTIONS'' (environ_get s ''_JAVA_OPTIONS'' [] @ '' '' @ jf) s)"

text \<open>The command of the child process started last.\<close>

definition last_command :: "os \<Rightarrow> string list" where
  "last_command s = fst (last (spawned s))"

subsection \<open>A concrete world for examples\<close>

text \<open>
  A constructor that makes the directory \<open>p\<close> and returns the handle on it; a platform
  whose executable always returns \<open>rc\<close> and on which every file opens; a host where SIRIUS
  is installed under \<open>/opt/sirius\<close>, with a given environment.
\<close>

definition tmpdir :: "string \<Rightarrow> constructor" where
  "tmpdir p s = (Inr \<lparr>path = p, get_path = p\<rparr>, s\<lparr>fs := insert p (fs s)\<rparr>)"

definition stub_platform :: "int \<Rightarrow> platform" where
  "stub_platform rc =
     \<lparr>can_open = (\<lambda>fp. True), child = (\<lambda>cmd. Some rc),
      SiriusDirFmt = tmpdir ''/tmp/sirius'', ZodiacDirFmt = tmpdir ''/tmp/zodiac'',
      CSIDirFmt = tmpdir ''/tmp/csi''\<rparr>"

definition host :: "environment \<Rightarrow> os" where
  "host env = \<lparr>environ = env, fs = {''/opt/sirius'', ''/opt/sirius/''}, stdout = [],
               env_writes = [], spawned = []\<rparr>"

section \<open>Properties\<close>

subsection \<open>Library facts\<close>

lemma str_int_1: "str_int 1 = ''1''" by code_simp
lemma str_int_32: "str_int 32 = ''32''" by code_simp
lemma str_int_10: "str_int 10 = ''10''" by code_simp

subsection \<open>What \<open>run_command\<close> changes\<close>

lemma run_command_environ: "environ (snd (run_command P cmd fp v s)) = environ s"
  by (simp add: run_command_def print_out_def Let_def split: option.splits)

lemma run_command_env_writes: "env_writes (snd (run_command P cmd fp v s)) = env_writes s"
  by (simp add: run_command_def print_out_def Let_def split: option.splits)

lemma run_command_spawned:
  "can_open P fp \<Longrightarrow> child P cmd = Some rc \<Longrightarrow>
   spawned (snd (run_command P cmd fp v s)) = spawned s @ [(cmd, fp, environ s)]"
  by (simp add: run_command_def print_out_def Let_def)

lemma run_command_spawned_cases:
  "spawned (snd (run_command P cmd fp v s)) = spawned s
   \<or> spawned (snd (run_command P cmd fp v s)) = spawned s @ [(cmd, fp, environ s)]"
  by (simp add: run_command_def print_out_def Let_def split: option.splits)

lemma run_command_fst:
  "can_open P fp \<Longrightarrow> child P cmd = Some rc \<Longrightarrow>
   fst (run_command P cmd fp v s) = (if rc = 0 then Inr () else Inl (CalledProcessError rc cmd))"
  by (simp add: run_command_def print_out_def Let_def)

lemma run_command_fst_raises:
  "\<not> can_open P fp \<or> child P cmd \<noteq> Some 0 \<Longrightarrow>
   fst (run_command P cmd fp v s) =
     Inl (if can_open P fp
          then case child P cmd of None \<Rightarrow> SpawnError cmd
               | Some rc \<Rightarrow> CalledProcessError rc cmd
          else OpenError fp)"
  by (auto simp add: run_command_def print_out_def Let_def split: option.splits)

subsection \<open>\<open>artifactory\<close> once the handle is there and the executable root exists\<close>

lemma artifactory_unfold:
  assumes "c s = (Inr h, s1)" and "sirius_path \<in> fs s1"
  shows "artifactory P sirius_path ps jf (Some c) s =
     (case run_command P ([path_join sirius_path ''sirius'', ''-o'', get_path h] @ ps)
             (path_join (path h) ''stdout.txt'') True (with_java_flags jf s1) of
        (Inl e, s3) \<Rightarrow> (Inl e, s3)
      | (Inr u, s3) \<Rightarrow>
          (Inr h, case jf of None \<Rightarrow> s3
                  | Some f \<Rightarrow> environ_set ''_JAVA_OPTIONS'' (environ_get s1 ''_JAVA_OPTIONS'' []) s3))"
  using assms
  by (cases jf)
     (simp_all add: artifactory_def path_exists_def with_java_flags_def Let_def
        split: prod.splits sum.splits)

lemma artifactory_spawned:
  assumes "c s = (Inr h, s1)" and "sirius_path \<in> fs s1"
    and "can_open P (path_join (path h) ''stdout.txt'')"
    and "child P ([path_join sirius_path ''sirius'', ''-o'', get_path h] @ ps) = Some rc"
  shows "spawned (snd (artifactory P sirius_path ps jf (Some c) s)) =
           spawned s1 @ [([path_join sirius_path ''sirius'', ''-o'', get_path h] @ ps,
                          path_join (path h) ''stdout.txt'',
                          environ (with_java_flags jf s1))]"
proof -
  let ?cmd = "[path_join sirius_path ''sirius'', ''-o'', get_path h] @ ps"
  let ?fp = "path_join (path h) ''stdout.txt''"
  let ?s2 = "with_java_flags jf s1"
  obtain r s3 where rc: "run_command P ?cmd ?fp True ?s2 = (r, s3)"
    by (cases "run_command P ?cmd ?fp True ?s2")
  have sp: "spawned s3 = spawned ?s2 @ [(?cmd, ?fp, environ ?s2)]"
    using run_command_spawned [OF assms(3,4), of True ?s2] rc by simp
  have s2: "spawned ?s2 = spawned s1"
    by (simp add: with_java_flags_def environ_set_def split: option.splits)
  show ?thesis
    using sp s2 rc
    by (simp add: artifactory_unfold [where c=c and s=s, OF assms(1,2)] environ_set_def
             split: sum.splits option.splits)
qed

lemma artifactory_fst:
  assumes "c s = (Inr h, s1)" and "sirius_path \<in> fs s1"
    and "can_open P (path_join (path h) ''stdout.txt'')"
    and "child P ([path_join sirius_path ''sirius'', ''-o'', get_path h] @ ps) = Some rc"
  shows "fst (artifactory P sirius_path ps jf (Some c) s) =
           (if rc = 0 then Inr h
            else Inl (CalledProcessError rc
                       ([path_join sirius_path ''sirius'', ''-o'', get_path h] @ ps)))"
proof -
  let ?cmd = "[path_join sirius_path ''sirius'', ''-o'', get_path h] @ ps"
  let ?fp = "path_join (path h) ''stdout.txt''"
  let ?s2 = "with_java_flags jf s1"
  obtain r s3 where rc: "run_command P ?cmd ?fp True ?s2 = (r, s3)"
    by (cases "run_command P ?cmd ?fp True ?s2")
  have "r = (if rc = 0 then Inr () else Inl (CalledProcessError rc ?cmd))"
    using run_command_fst [OF assms(3,4), of True ?s2] rc by simp
  then show ?thesis
    using rc by (simp add: artifactory_unfold [where c=c and s=s, OF assms(1,2)] split: sum.splits)
qed

lemma artifactory_environ_success:
  assumes "c s = (Inr h, s1)" and "sirius_path \<in> fs s1"
    and "can_open P (path_join (path h) ''stdout.txt'')"
    and "child P ([path_join sirius_path ''sirius'', ''-o'', get_path h] @ ps) = Some 0"
  shows "environ (snd (artifactory P sirius_path ps (Some jf) (Some c) s)) =
           (environ s1)(''_JAVA_OPTIONS'' \<mapsto> environ_get s1 ''_JAVA_OPTIONS'' [])"
proof -
  let ?cmd = "[path_join sirius_path ''sirius'', ''-o'', get_path h] @ ps"
  let ?fp = "path_join (path h) ''stdout.txt''"
  let ?s2 = "with_java_flags (Some jf) s1"
  obtain r s3 where rc: "run_command P ?cmd ?fp True ?s2 = (r, s3)"
    by (cases "run_command P ?cmd ?fp True ?s2")
  have r: "r = Inr ()"
    using run_command_fst [OF assms(3,4), of True ?s2] rc by simp
  have e: "environ s3 = environ ?s2"
    using run_command_environ [of P ?cmd ?fp True ?s2] rc by simp
  show ?thesis
    using rc r e
    by (simp add: artifactory_unfold [where c=c and s=s, OF assms(1,2)] environ_set_def with_java_flags_def)
qed

lemma artifactory_environ_failure:
  assumes "c s = (Inr h, s1)" and "sirius_path \<in> fs s1"
    and "\<not> can_open P (path_join (path h) ''stdout.txt'')
         \<or> child P ([path_join sirius_path ''sirius'', ''-o'', get_path h] @ ps) \<noteq> Some 0"
  shows "environ (snd (artifactory P sirius_path ps jf (Some c) s)) =
           environ (with_java_flags jf s1)"
   and "fst (artifactory P sirius_path ps jf (Some c) s) =
     Inl (if can_open P (path_join (path h) ''stdout.txt'')
          then case child P ([path_join sirius_path ''sirius'', ''-o'', get_path h] @ ps) of
             None \<Rightarrow> SpawnError ([path_join sirius_path ''sirius'', ''-o'', get_path h] @ ps)
           | Some rc \<Rightarrow> CalledProcessError rc
                 ([path_join sirius_path ''sirius'', ''-o'', get_path h] @ ps)
          else OpenError (path_join (path h) ''stdout.txt''))"
proof -
  let ?cmd = "[path_join sirius_path ''sirius'', ''-o'', get_path h] @ ps"
  let ?fp = "path_join (path h) ''stdout.txt''"
  let ?s2 = "with_java_flags jf s1"
  let ?e = "if can_open P ?fp
      then case child P ?cmd of None \<Rightarrow> SpawnError ?cmd
           | Some rc \<Rightarrow> CalledProcessError rc ?cmd
      else OpenError ?fp"
  obtain r s3 where rc: "run_command P ?cmd ?fp True ?s2 = (r, s3)"
    by (cases "run_command P ?cmd ?fp True ?s2")
  have r: "r = Inl ?e"
    using run_command_fst_raises [OF assms(3), of True ?s2] rc by simp
  have env: "environ s3 = environ ?s2"
    using run_command_environ [of P ?cmd ?fp True ?s2] rc by simp
  have both: "artifactory P sirius_path ps jf (Some c) s = (Inl ?e, s3)"
    unfolding artifactory_unfold [where c=c and s=s, OF assms(1,2)] rc r by simp
  show "environ (snd (artifactory P sirius_path ps jf (Some c) s)) = environ ?s2"
    unfolding both using env by simp
  show "fst (artifactory P sirius_path ps jf (Some c) s) = Inl ?e"
    unfolding both by simp
qed

lemma with_java_flags_None: "with_java_flags None s = s"
  by (simp add: with_java_flags_def)

lemma environ_with_java_flags_Some:
  "environ (with_java_flags (Some jf) s) =
     (environ s)(''_JAVA_OPTIONS'' \<mapsto> environ_get s ''_JAVA_OPTIONS'' [] @ '' '' @ jf)"
  by (simp add: with_java_flags_def environ_set_def)

lemma with_java_flags_spawned: "spawned (with_java_flags jf s) = spawned s"
  by (simp add: with_java_flags_def environ_set_def split: option.splits)

lemma path_join_relative:
  "path_join a ''sirius'' = (if a = [] \<or> last a = CHR ''/'' then a @ ''sirius'' else a @ ''/sirius'')"
  by (simp add: path_join_def)

lemma artifactory_env_writes:
  assumes "c s = (Inr h, s1)" and "sirius_path \<in> fs s1"
    and "can_open P (path_join (path h) ''stdout.txt'')"
    and "child P ([path_join sirius_path ''sirius'', ''-o'', get_path h] @ ps) = Some rc"
  shows "env_writes (snd (artifactory P sirius_path ps (Some jf) (Some c) s)) =
           env_writes s1 @
             (if rc = 0
              then [(''_JAVA_OPTIONS'', environ_get s1 ''_JAVA_OPTIONS'' [] @ '' '' @ jf),
                    (''_JAVA_OPTIONS'', environ_get s1 ''_JAVA_OPTIONS'' [])]
              else [(''_JAVA_OPTIONS'', environ_get s1 ''_JAVA_OPTIONS'' [] @ '' '' @ jf)])"
    and "environ (snd (artifactory P sirius_path ps (Some jf) (Some c) s)) ''_JAVA_OPTIONS'' =
           Some (if rc = 0 then environ_get s1 ''_JAVA_OPTIONS'' []
                 else environ_get s1 ''_JAVA_OPTIONS'' [] @ '' '' @ jf)"
proof -
  let ?cmd = "[path_join sirius_path ''sirius'', ''-o'', get_path h] @ ps"
  let ?fp = "path_join (path h) ''stdout.txt''"
  let ?s2 = "with_java_flags (Some jf) s1"
  obtain r s3 where rc: "run_command P ?cmd ?fp True ?s2 = (r, s3)"
    by (cases "run_command P ?cmd ?fp True ?s2")
  have r: "r = (if rc = 0 then Inr () else Inl (CalledProcessError rc ?cmd))"
    using run_command_fst [OF assms(3,4), of True ?s2] rc by simp
  have w: "env_writes s3 = env_writes ?s2"
    using run_command_env_writes [of P ?cmd ?fp True ?s2] rc by simp
  have e: "environ s3 = environ ?s2"
    using run_command_environ [of P ?cmd ?fp True ?s2] rc by simp
  have w2: "env_writes ?s2 = env_writes s1 @ [(''_JAVA_OPTIONS'', environ_get s1 ''_JAVA_OPTIONS'' [] @ '' '' @ jf)]"
    by (simp add: with_java_flags_def environ_set_def)
  show "env_writes (snd (artifactory P sirius_path ps (Some jf) (Some c) s)) =
           env_writes s1 @
             (if rc = 0
              then [(''_JAVA_OPTIONS'', environ_get s1 ''_JAVA_OPTIONS'' [] @ '' '' @ jf),
                    (''_JAVA_OPTIONS'', environ_get s1 ''_JAVA_OPTIONS'' [])]
              else [(''_JAVA_OPTIONS'', environ_get s1 ''_JAVA_OPTIONS'' [] @ '' '' @ jf)])"
    unfolding artifactory_unfold [where c = c and s = s, OF assms(1,2)] rc r
    using w w2 by (simp add: environ_set_def)
  show "environ (snd (artifactory P sirius_path ps (Some jf) (Some c) s)) ''_JAVA_OPTIONS'' =
           Some (if rc = 0 then environ_get s1 ''_JAVA_OPTIONS'' []
                 else environ_get s1 ''_JAVA_OPTIONS'' [] @ '' '' @ jf)"
    unfolding artifactory_unfold [where c = c and s = s, OF assms(1,2)] rc r
    using e by (simp add: environ_set_def environ_with_java_flags_Some)
qed

lemma artifactory_without_flags:
  "env_writes (snd (artifactory P sirius_path ps None (Some c) s)) = env_writes (snd (c s))"
  "environ (snd (artifactory P sirius_path ps None (Some c) s)) = environ (snd (c s))"
proof -
  obtain r s1 where cs: "c s = (r, s1)"
    by (cases "c s")
  have "env_writes (snd (artifactory P sirius_path ps None (Some c) s)) = env_writes s1
      \<and> environ (snd (artifactory P sirius_path ps None (Some c) s)) = environ s1"
  proof (cases r)
    case (Inl e)
    then show ?thesis
      using cs by (simp add: artifactory_def)
  next
    case (Inr h)
    show ?thesis
    proof (cases "sirius_path \<in> fs s1")
      case False
      then show ?thesis
        using cs Inr by (simp add: artifactory_def path_exists_def)
    next
      case True
      let ?cmd = "[path_join sirius_path ''sirius'', ''-o'', get_path h] @ ps"
      let ?fp = "path_join (path h) ''stdout.txt''"
      obtain u s3 where rc: "run_command P ?cmd ?fp True s1 = (u, s3)"
        by (cases "run_command P ?cmd ?fp True s1")
      have "env_writes s3 = env_writes s1" "environ s3 = environ s1"
        using run_command_env_writes [of P ?cmd ?fp True s1]
              run_command_environ [of P ?cmd ?fp True s1] rc by simp_all
      then show ?thesis
        using cs [unfolded Inr] True rc
        by (simp add: artifactory_unfold [where c = c and s = s and ?s1.0 = s1 and h = h]
              with_java_flags_None split: sum.splits)
    qed
  qed
  then show "env_writes (snd (artifactory P sirius_path ps None (Some c) s)) = env_writes (snd (c s))"
    and "environ (snd (artifactory P sirius_path ps None (Some c) s)) = environ (snd (c s))"
    using cs by simp_all
qed

lemma artifactory_last_command:
  assumes "spawned (snd (artifactory P sirius_path ps jf (Some c) s)) \<noteq> spawned (snd (c s))"
  shows "drop 3 (last_command (snd (artifactory P sirius_path ps jf (Some c) s))) = ps"
proof -
  obtain r s1 where cs: "c s = (r, s1)"
    by (cases "c s")
  show ?thesis
  proof (cases r)
    case (Inl e)
    then show ?thesis
      using cs assms by (simp add: artifactory_def)
  next
    case (Inr h)
    show ?thesis
    proof (cases "sirius_path \<in> fs s1")
      case False
      then show ?thesis
        using cs Inr assms by (simp add: artifactory_def path_exists_def)
    next
      case True
      let ?cmd = "[path_join sirius_path ''sirius'', ''-o'', get_path h] @ ps"
      let ?fp = "path_join (path h) ''stdout.txt''"
      let ?s2 = "with_java_flags jf s1"
      obtain u s3 where rc: "run_command P ?cmd ?fp True ?s2 = (u, s3)"
        by (cases "run_command P ?cmd ?fp True ?s2")
      have sp: "spawned (snd (artifactory P sirius_path ps jf (Some c) s)) = spawned s3"
        using cs [unfolded Inr] True rc
        by (simp add: artifactory_unfold [where c = c and s = s and ?s1.0 = s1 and h = h]
              environ_set_def split: sum.splits option.splits)
      have "spawned s3 = spawned s1 \<or> spawned s3 = spawned s1 @ [(?cmd, ?fp, environ ?s2)]"
        using run_command_spawned_cases [of P ?cmd ?fp True ?s2] rc
        by (simp add: with_java_flags_spawned)
      then have "spawned s3 = spawned s1 @ [(?cmd, ?fp, environ ?s2)]"
        using assms sp cs by auto
      then show ?thesis
        using sp by (simp add: last_command_def)
    qed
  qed
qed

subsection \<open>The stages hand their parameter list to \<open>artifactory\<close>\<close>

lemma compute_fragmentation_trees_unfold:
  "compute_fragmentation_trees P sirius_path features ppm_max profile tree_timeout maxmz n_jobs
       num_candidates database ionization_mode java_flags s
     = artifactory P sirius_path
         [''--quiet'', ''--initial-compound-buffer'', ''1'', ''--max-compound-buffer'', ''32'',
          ''--profile'', profile, ''--database'', database,
          ''--candidates'', str_int num_candidates, ''--processors'', str_int n_jobs,
          ''--trust-ion-prediction'', ''--maxmz'', str_int maxmz,
          ''--tree-timeout'', str_int tree_timeout, ''--ppm-max'', str_int ppm_max,
          path_join (path features) ''features.mgf'']
         java_flags (Some (SiriusDirFmt P)) s"
  by (simp add: compute_fragmentation_trees_def Let_def str_int_1 str_int_32)

lemma rerank_molecular_formulas_unfold:
  "rerank_molecular_formulas P str_float sirius_path fragmentation_trees features
       zodiac_threshold n_jobs java_flags s
     = artifactory P sirius_path
         [''--zodiac'', ''--sirius'', get_path fragmentation_trees,
          ''--thresholdfilter'', str_float zodiac_threshold,
          ''--processors'', str_int n_jobs,
          ''--spectra'', path_join (path features) ''features.mgf'']
         java_flags (Some (ZodiacDirFmt P)) s"
  by (simp add: rerank_molecular_formulas_def Let_def)

lemma predict_fingerprints_unfold:
  "predict_fingerprints P sirius_path molecular_formulas ppm_max n_jobs fingerid_db java_flags s
     = artifactory P sirius_path
         [''--processors'', str_int n_jobs, ''--fingerid'',
          ''--fingerid-db'', fingerid_db, ''--ppm-max'', str_int ppm_max,
          get_path molecular_formulas]
         java_flags (Some (CSIDirFmt P)) s"
  by (simp add: predict_fingerprints_def Let_def)

subsection \<open>The example world\<close>

lemma str_int_examples:
  "str_int 2 = ''2''" "str_int 75 = ''75''" "str_int 600 = ''600''" "str_int 1600 = ''1600''"
  by code_simp+

lemma path_join_features:
  "path_join ''/data/in'' ''features.mgf'' = ''/data/in/features.mgf''"
  by (simp add: path_join_def)

lemma stub_platform_simps:
  "can_open (stub_platform rc) fp" "child (stub_platform rc) cmd = Some rc"
  "SiriusDirFmt (stub_platform rc) = tmpdir ''/tmp/sirius''"
  "ZodiacDirFmt (stub_platform rc) = tmpdir ''/tmp/zodiac''"
  "CSIDirFmt (stub_platform rc) = tmpdir ''/tmp/csi''"
  by (simp_all add: stub_platform_def)

lemma host_ctor:
  "tmpdir p (host env) = (Inr \<lparr>path = p, get_path = p\<rparr>, snd (tmpdir p (host env)))"
  by (simp add: tmpdir_def)

lemma host_fs: "''/opt/sirius'' \<in> fs (snd (tmpdir p (host env)))"
  "''/opt/sirius/'' \<in> fs (snd (tmpdir p (host env)))"
  by (simp_all add: tmpdir_def host_def)

lemma host_spawned: "spawned (snd (tmpdir p (host env))) = []"
  by (simp add: tmpdir_def host_def)

lemma host_environ: "environ (snd (tmpdir p (host env))) = env"
  by (simp add: tmpdir_def host_def)

lemma stub_run:
  "artifactory (stub_platform 0) ''/opt/sirius'' ps None (Some (tmpdir d)) (host Map.empty)
     = (Inr \<lparr>path = d, get_path = d\<rparr>,
        \<lparr>environ = Map.empty,
         fs = insert (path_join d ''stdout.txt'') (insert d {''/opt/sirius'', ''/opt/sirius/''}),
         stdout = stdout (snd (artifactory (stub_platform 0) ''/opt/sirius'' ps None
                    (Some (tmpdir d)) (host Map.empty))),
         env_writes = [],
         spawned = [(''/opt/sirius/sirius'' # ''-o'' # d # ps,
                     path_join d ''stdout.txt'', Map.empty)]\<rparr>)"
  by (simp add: artifactory_def run_command_def tmpdir_def host_def stub_platform_def
        path_exists_def path_join_def environ_get_def print_out_def Let_def)

lemma stub_started:
  "spawned (snd (artifactory (stub_platform rc) ''/opt/sirius'' ps jf (Some (tmpdir d)) (host env)))
     \<noteq> spawned (snd (tmpdir d (host env)))"
proof -
  have "spawned (snd (artifactory (stub_platform rc) ''/opt/sirius'' ps jf (Some (tmpdir d))
                       (host env))) =
        spawned (snd (tmpdir d (host env)))
          @ [([path_join ''/opt/sirius'' ''sirius'', ''-o'', get_path \<lparr>path = d, get_path = d\<rparr>] @ ps,
              path_join (path \<lparr>path = d, get_path = d\<rparr>) ''stdout.txt'',
              environ (with_java_flags jf (snd (tmpdir d (host env)))))]"
    by (rule artifactory_spawned [where rc = rc and c = "tmpdir d" and s = "host env",
               OF host_ctor host_fs(1)])
       (simp_all add: stub_platform_simps)
  then show ?thesis
    by simp
qed

section \<open>The claims\<close>

subsection \<open>The process runner\<close>

text \<open>
  Claim C6. When the output file opens and the child process runs to an exit status
  \<open>rc\<close>, \<open>run_command\<close> returns normally for \<open>rc = 0\<close> and otherwise raises
  \<open>CalledProcessError\<close> carrying \<open>rc\<close> and the command. Either way exactly one child
  process has been started: the failure propagates at once, nothing is tried again.
\<close>

theorem run_command_exit_status:
  assumes "can_open P output_fp" and "child P cmd = Some rc"
  shows "fst (run_command P cmd output_fp verbose s)
           = (if rc = 0 then Inr () else Inl (CalledProcessError rc cmd))
         \<and> spawned (snd (run_command P cmd output_fp verbose s))
           = spawned s @ [(cmd, output_fp, environ s)]"
  using assms by (simp add: run_command_def print_out_def Let_def)

theorem run_command_exit_status_witness:
  "can_open (stub_platform 3) ''/tmp/out/stdout.txt''
   \<and> child (stub_platform 3) [''/opt/sirius/sirius'', ''--quiet''] = Some 3
   \<and> fst (run_command (stub_platform 3) [''/opt/sirius/sirius'', ''--quiet'']
             ''/tmp/out/stdout.txt'' True (host Map.empty))
       = Inl (CalledProcessError 3 [''/opt/sirius/sirius'', ''--quiet''])
   \<and> map fst (spawned (snd (run_command (stub_platform 3) [''/opt/sirius/sirius'', ''--quiet'']
             ''/tmp/out/stdout.txt'' True (host Map.empty))))
       = [[''/opt/sirius/sirius'', ''--quiet'']]
   \<and> can_open (stub_platform 0) ''/tmp/out/stdout.txt''
   \<and> child (stub_platform 0) [''/opt/sirius/sirius'', ''--quiet''] = Some 0
   \<and> fst (run_command (stub_platform 0) [''/opt/sirius/sirius'', ''--quiet'']
             ''/tmp/out/stdout.txt'' True (host Map.empty))
       = Inr ()"
proof -
  have o3: "can_open (stub_platform 3) ''/tmp/out/stdout.txt''"
    and c3: "child (stub_platform 3) [''/opt/sirius/sirius'', ''--quiet''] = Some 3"
    and o0: "can_open (stub_platform 0) ''/tmp/out/stdout.txt''"
    and c0: "child (stub_platform 0) [''/opt/sirius/sirius'', ''--quiet''] = Some 0"
    by (simp_all add: stub_platform_def)
  show ?thesis
    using run_command_exit_status [OF o3 c3, of True "host Map.empty"]
          run_command_exit_status [OF o0 c0, of True "host Map.empty"]
          o3 c3 o0 c0
    by (simp add: host_def)
qed

subsection \<open>The executable root that does not exist\<close>

text \<open>
  Claim C2, as the code has it. \<open>artifactory\<close> calls the constructor first and looks for
  the executable root afterwards. When a constructor is given and has returned a handle,
  and the root does not exist in the world the constructor left, the call raises
  \<open>OSError\<close> and leaves exactly that world: the handle has been constructed, and nothing
  was printed, opened, started or written to the environment after it. The same holds
  for the three stages, each with its own directory format.
\<close>

theorem artifactory_tool_not_found:
  "(c s = (Inr h, s1) \<and> sirius_path \<notin> fs s1 \<longrightarrow>
      artifactory P sirius_path ps java_flags (Some c) s
        = (Inl (OSError ''SIRIUS could not be located''), s1))
   \<and> (SiriusDirFmt P s = (Inr hs, ss) \<and> sirius_path \<notin> fs ss \<longrightarrow>
        compute_fragmentation_trees P sirius_path features ppm_max profile tree_timeout
            maxmz n_jobs num_candidates database ionization_mode java_flags s
          = (Inl (OSError ''SIRIUS could not be located''), ss))
   \<and> (ZodiacDirFmt P s = (Inr hz, sz) \<and> sirius_path \<notin> fs sz \<longrightarrow>
        rerank_molecular_formulas P str_float sirius_path fragmentation_trees features
            zodiac_threshold n_jobs java_flags s
          = (Inl (OSError ''SIRIUS could not be located''), sz))
   \<and> (CSIDirFmt P s = (Inr hc, sc) \<and> sirius_path \<notin> fs sc \<longrightarrow>
        predict_fingerprints P sirius_path molecular_formulas ppm_max n_jobs fingerid_db
            java_flags s
          = (Inl (OSError ''SIRIUS could not be located''), sc))"
  by (simp add: artifactory_def compute_fragmentation_trees_def rerank_molecular_formulas_def
        predict_fingerprints_def path_exists_def Let_def)

theorem artifactory_tool_not_found_witness:
  "''/opt/nowhere'' \<notin> fs (snd (tmpdir ''/tmp/sirius'' (host Map.empty)))
   \<and> ''/opt/nowhere'' \<notin> fs (snd (tmpdir ''/tmp/zodiac'' (host Map.empty)))
   \<and> ''/opt/nowhere'' \<notin> fs (snd (tmpdir ''/tmp/csi'' (host Map.empty)))
   \<and> SiriusDirFmt (stub_platform 0) = tmpdir ''/tmp/sirius''
   \<and> ZodiacDirFmt (stub_platform 0) = tmpdir ''/tmp/zodiac''
   \<and> CSIDirFmt (stub_platform 0) = tmpdir ''/tmp/csi''
   \<and> artifactory (stub_platform 0) ''/opt/nowhere'' [''--quiet''] (Some ''-Xmx4g'')
         (Some (tmpdir ''/tmp/sirius'')) (host Map.empty)
       = (Inl (OSError ''SIRIUS could not be located''),
          snd (tmpdir ''/tmp/sirius'' (host Map.empty)))
   \<and> compute_fragmentation_trees (stub_platform 0) ''/opt/nowhere''
         \<lparr>path = ''/data/in'', get_path = ''/data/in''\<rparr> 10 ''orbitrap'' 1600 600 2 75 ''all''
         ''auto'' (Some ''-Xmx4g'') (host Map.empty)
       = (Inl (OSError ''SIRIUS could not be located''),
          snd (tmpdir ''/tmp/sirius'' (host Map.empty)))
   \<and> rerank_molecular_formulas (stub_platform 0) (\<lambda>x. x) ''/opt/nowhere''
         \<lparr>path = ''/data/trees'', get_path = ''/data/trees''\<rparr>
         \<lparr>path = ''/data/in'', get_path = ''/data/in''\<rparr> ''0.95'' 2
         (Some ''-Xmx4g'') (host Map.empty)
       = (Inl (OSError ''SIRIUS could not be located''),
          snd (tmpdir ''/tmp/zodiac'' (host Map.empty)))
   \<and> predict_fingerprints (stub_platform 0) ''/opt/nowhere''
         \<lparr>path = ''/data/formulas'', get_path = ''/data/formulas''\<rparr> 10 2 ''pubchem''
         (Some ''-Xmx4g'') (host Map.empty)
       = (Inl (OSError ''SIRIUS could not be located''),
          snd (tmpdir ''/tmp/csi'' (host Map.empty)))"
proof -
  have absent:
    "''/opt/nowhere'' \<notin> fs (snd (tmpdir ''/tmp/sirius'' (host Map.empty)))"
    "''/opt/nowhere'' \<notin> fs (snd (tmpdir ''/tmp/zodiac'' (host Map.empty)))"
    "''/opt/nowhere'' \<notin> fs (snd (tmpdir ''/tmp/csi'' (host Map.empty)))"
    by (simp_all add: tmpdir_def host_def)
  have ctor:
    "SiriusDirFmt (stub_platform 0) = tmpdir ''/tmp/sirius''"
    "ZodiacDirFmt (stub_platform 0) = tmpdir ''/tmp/zodiac''"
    "CSIDirFmt (stub_platform 0) = tmpdir ''/tmp/csi''"
    by (simp_all add: stub_platform_def)
  have made: "tmpdir p (host Map.empty)
                = (Inr \<lparr>path = p, get_path = p\<rparr>, snd (tmpdir p (host Map.empty)))" for p
    by (simp add: tmpdir_def)
  show ?thesis
    using absent ctor
      artifactory_tool_not_found
        [where P = "stub_platform 0" and s = "host Map.empty" and sirius_path = "''/opt/nowhere''"
           and c = "tmpdir ''/tmp/sirius''"
           and h = "\<lparr>path = ''/tmp/sirius'', get_path = ''/tmp/sirius''\<rparr>"
           and ?s1.0 = "snd (tmpdir ''/tmp/sirius'' (host Map.empty))"
           and hs = "\<lparr>path = ''/tmp/sirius'', get_path = ''/tmp/sirius''\<rparr>"
           and ss = "snd (tmpdir ''/tmp/sirius'' (host Map.empty))"
           and hz = "\<lparr>path = ''/tmp/zodiac'', get_path = ''/tmp/zodiac''\<rparr>"
           and sz = "snd (tmpdir ''/tmp/zodiac'' (host Map.empty))"
           and hc = "\<lparr>path = ''/tmp/csi'', get_path = ''/tmp/csi''\<rparr>"
           and sc = "snd (tmpdir ''/tmp/csi'' (host Map.empty))"
           and ps = "[''--quiet'']" and java_flags = "Some ''-Xmx4g''"
           and features = "\<lparr>path = ''/data/in'', get_path = ''/data/in''\<rparr>"
           and ppm_max = 10 and profile = "''orbitrap''" and tree_timeout = 1600
           and maxmz = 600 and n_jobs = 2 and num_candidates = 75 and database = "''all''"
           and ionization_mode = "''auto''" and str_float = "\<lambda>x. x"
           and fragmentation_trees = "\<lparr>path = ''/data/trees'', get_path = ''/data/trees''\<rparr>"
           and zodiac_threshold = "''0.95''"
           and molecular_formulas = "\<lparr>path = ''/data/formulas'', get_path = ''/data/formulas''\<rparr>"
           and fingerid_db = "''pubchem''"]
      made [of "''/tmp/sirius''"] made [of "''/tmp/zodiac''"] made [of "''/tmp/csi''"]
    by simp
qed

text \<open>
  Claim C2 as stated fails: the error does not come before every side effect, since the
  handle is constructed before the check. With a constructor that makes its directory
  the directory is there after the failed call. With the default \<open>constructor=None\<close>
  the call fails on the constructor, not with the error for the missing tool.
\<close>

theorem artifactory_tool_not_found_counterexample:
  "''/opt/nowhere'' \<notin> fs (host Map.empty)
   \<and> fst (artifactory (stub_platform 0) ''/opt/nowhere'' [''--quiet''] None
            (Some (tmpdir ''/tmp/sirius'')) (host Map.empty))
       = Inl (OSError ''SIRIUS could not be located'')
   \<and> ''/tmp/sirius'' \<notin> fs (host Map.empty)
   \<and> ''/tmp/sirius'' \<in> fs (snd (artifactory (stub_platform 0) ''/opt/nowhere'' [''--quiet''] None
            (Some (tmpdir ''/tmp/sirius'')) (host Map.empty)))
   \<and> snd (artifactory (stub_platform 0) ''/opt/nowhere'' [''--quiet''] None
            (Some (tmpdir ''/tmp/sirius'')) (host Map.empty)) \<noteq> host Map.empty
   \<and> fst (artifactory (stub_platform 0) ''/opt/nowhere'' [''--quiet''] None None
            (host Map.empty))
       = Inl TypeError"
proof -
  have r: "artifactory (stub_platform 0) ''/opt/nowhere'' [''--quiet''] None
            (Some (tmpdir ''/tmp/sirius'')) (host Map.empty)
           = (Inl (OSError ''SIRIUS could not be located''),
              (host Map.empty)\<lparr>fs := insert ''/tmp/sirius'' (fs (host Map.empty))\<rparr>)"
    by (simp add: artifactory_def tmpdir_def path_exists_def host_def)
  have n: "''/tmp/sirius'' \<notin> fs (host Map.empty)" "''/opt/nowhere'' \<notin> fs (host Map.empty)"
    by (simp_all add: host_def)
  have d: "(host Map.empty)\<lparr>fs := insert ''/tmp/sirius'' (fs (host Map.empty))\<rparr> \<noteq> host Map.empty"
  proof
    assume "(host Map.empty)\<lparr>fs := insert ''/tmp/sirius'' (fs (host Map.empty))\<rparr> = host Map.empty"
    then have "fs ((host Map.empty)\<lparr>fs := insert ''/tmp/sirius'' (fs (host Map.empty))\<rparr>)
                 = fs (host Map.empty)"
      by simp
    then show False
      using n(1) by auto
  qed
  show ?thesis
    unfolding r using n d by (simp add: artifactory_def)
qed

subsection \<open>The command and its output file\<close>

text \<open>
  Claim C5, as the code has it. Once the handle \<open>h\<close> is constructed and the root \<open>p\<close>
  exists, \<open>artifactory\<close> calls \<open>run_command\<close> with the command
  \<open>[os.path.join(p, 'sirius'), '-o', h.get_path()] + ps\<close> and the output file
  \<open>os.path.join(str(h.path), 'stdout.txt')\<close>; when that file opens and the process
  starts, this is the one process recorded. The executable is \<open>p + '/sirius'\<close> when
  \<open>p\<close> does not end with a separator, and \<open>p + 'sirius'\<close> when it does.
\<close>

theorem artifactory_command:
  assumes "c s = (Inr h, s1)" and "sirius_path \<in> fs s1"
  shows "artifactory P sirius_path ps jf (Some c) s =
           (case run_command P ([path_join sirius_path ''sirius'', ''-o'', get_path h] @ ps)
                   (path_join (path h) ''stdout.txt'') True (with_java_flags jf s1) of
              (Inl e, s3) \<Rightarrow> (Inl e, s3)
            | (Inr u, s3) \<Rightarrow>
                (Inr h, case jf of None \<Rightarrow> s3
                        | Some f \<Rightarrow> environ_set ''_JAVA_OPTIONS''
                                      (environ_get s1 ''_JAVA_OPTIONS'' []) s3))
       \<and> (can_open P (path_join (path h) ''stdout.txt'')
            \<and> child P ([path_join sirius_path ''sirius'', ''-o'', get_path h] @ ps) = Some rc \<longrightarrow>
          spawned (snd (artifactory P sirius_path ps jf (Some c) s)) =
            spawned s1 @ [([path_join sirius_path ''sirius'', ''-o'', get_path h] @ ps,
                           path_join (path h) ''stdout.txt'',
                           environ (with_java_flags jf s1))])
       \<and> path_join sirius_path ''sirius'' =
            (if sirius_path = [] \<or> last sirius_path = CHR ''/'' then sirius_path @ ''sirius''
             else sirius_path @ ''/sirius'')"
  using artifactory_unfold [where c = c and s = s, OF assms]
        artifactory_spawned [where c = c and s = s, OF assms]
        path_join_relative [of sirius_path]
  by blast

theorem artifactory_command_witness:
  "tmpdir ''/tmp/sirius'' (host Map.empty)
     = (Inr \<lparr>path = ''/tmp/sirius'', get_path = ''/tmp/sirius''\<rparr>,
        snd (tmpdir ''/tmp/sirius'' (host Map.empty)))
   \<and> ''/opt/sirius'' \<in> fs (snd (tmpdir ''/tmp/sirius'' (host Map.empty)))
   \<and> can_open (stub_platform 0) (path_join ''/tmp/sirius'' ''stdout.txt'')
   \<and> child (stub_platform 0)
        ([path_join ''/opt/sirius'' ''sirius'', ''-o'', ''/tmp/sirius''] @ [''--quiet'']) = Some 0
   \<and> spawned (snd (artifactory (stub_platform 0) ''/opt/sirius'' [''--quiet''] None
                     (Some (tmpdir ''/tmp/sirius'')) (host Map.empty)))
       = [([''/opt/sirius/sirius'', ''-o'', ''/tmp/sirius'', ''--quiet''],
           ''/tmp/sirius/stdout.txt'', Map.empty)]"
proof -
  let ?h = "\<lparr>path = ''/tmp/sirius'', get_path = ''/tmp/sirius''\<rparr>"
  have a1: "tmpdir ''/tmp/sirius'' (host Map.empty)
              = (Inr ?h, snd (tmpdir ''/tmp/sirius'' (host Map.empty)))"
    by (rule host_ctor)
  have a2: "''/opt/sirius'' \<in> fs (snd (tmpdir ''/tmp/sirius'' (host Map.empty)))"
    by (rule host_fs)
  have j: "path_join ''/opt/sirius'' ''sirius'' = ''/opt/sirius/sirius''"
          "path_join ''/tmp/sirius'' ''stdout.txt'' = ''/tmp/sirius/stdout.txt''"
    by (simp_all add: path_join_def)
  show ?thesis
    using artifactory_command [where c = "tmpdir ''/tmp/sirius''" and s = "host Map.empty"
            and P = "stub_platform 0" and ps = "[''--quiet'']" and jf = None and rc = 0,
            OF a1 a2, THEN conjunct2, THEN conjunct1] a1 a2
    by (simp add: stub_platform_simps j host_spawned host_environ with_java_flags_None)
qed

text \<open>
  Claim C5 as stated fails for a root written with a trailing separator: for
  \<open>/opt/sirius/\<close> the executable is \<open>/opt/sirius/sirius\<close>, not \<open>/opt/sirius//sirius\<close>.
\<close>

theorem artifactory_command_counterexample:
  "''/opt/sirius/'' \<in> fs (host Map.empty)
   \<and> map fst (spawned (snd (artifactory (stub_platform 0) ''/opt/sirius/'' [''--quiet''] None
                     (Some (tmpdir ''/tmp/sirius'')) (host Map.empty))))
       = [[''/opt/sirius/sirius'', ''-o'', ''/tmp/sirius'', ''--quiet'']]
   \<and> map fst (spawned (snd (artifactory (stub_platform 0) ''/opt/sirius/'' [''--quiet''] None
                     (Some (tmpdir ''/tmp/sirius'')) (host Map.empty))))
       \<noteq> [[''/opt/sirius/'' @ ''/sirius'', ''-o'',
             get_path \<lparr>path = ''/tmp/sirius'', get_path = ''/tmp/sirius''\<rparr>] @ [''--quiet'']]"
  by (simp add: artifactory_def run_command_def tmpdir_def host_def stub_platform_def
        path_exists_def path_join_def environ_get_def print_out_def Let_def)

subsection \<open>\<open>_JAVA_OPTIONS\<close> around the call\<close>

text \<open>
  Claim C3, as the code has it. With \<open>java_flags\<close> given, a constructor that leaves
  \<open>_JAVA_OPTIONS\<close> alone and a child process that returns 0, the call returns the
  handle, and afterwards \<open>_JAVA_OPTIONS\<close> holds what \<open>os.environ.get('_JAVA_OPTIONS', '')\<close>
  read before: the value it had when it was set, the empty string when it was not set.
  No other variable has changed.
\<close>

theorem artifactory_restores_java_options:
  assumes "c s = (Inr h, s1)"
    and "environ s1 ''_JAVA_OPTIONS'' = environ s ''_JAVA_OPTIONS''"
    and "sirius_path \<in> fs s1"
    and "can_open P (path_join (path h) ''stdout.txt'')"
    and "child P ([path_join sirius_path ''sirius'', ''-o'', get_path h] @ ps) = Some 0"
  shows "fst (artifactory P sirius_path ps (Some jf) (Some c) s) = Inr h
       \<and> environ (snd (artifactory P sirius_path ps (Some jf) (Some c) s)) ''_JAVA_OPTIONS''
           = Some (case environ s ''_JAVA_OPTIONS'' of None \<Rightarrow> [] | Some v \<Rightarrow> v)
       \<and> environ (snd (artifactory P sirius_path ps (Some jf) (Some c) s))
           = (environ s1)(''_JAVA_OPTIONS'' \<mapsto>
                (case environ s ''_JAVA_OPTIONS'' of None \<Rightarrow> [] | Some v \<Rightarrow> v))"
proof -
  have e: "environ (snd (artifactory P sirius_path ps (Some jf) (Some c) s)) =
             (environ s1)(''_JAVA_OPTIONS'' \<mapsto> environ_get s1 ''_JAVA_OPTIONS'' [])"
    using assms(1,3,4,5) by (rule artifactory_environ_success)
  have g: "environ_get s1 ''_JAVA_OPTIONS'' []
             = (case environ s ''_JAVA_OPTIONS'' of None \<Rightarrow> [] | Some v \<Rightarrow> v)"
    by (simp add: environ_get_def assms(2))
  have f: "fst (artifactory P sirius_path ps (Some jf) (Some c) s) = Inr h"
    using artifactory_fst [where c = c and s = s, OF assms(1,3,4,5), of "Some jf"] by simp
  show ?thesis
    using e g f by simp
qed

text \<open>
  The example of the specification: with \<open>-Xmx4g\<close> and \<open>_JAVA_OPTIONS=-Dfoo=bar\<close> the
  variable is \<open>-Dfoo=bar\<close> again after the call.
\<close>

theorem artifactory_restores_java_options_witness:
  "tmpdir ''/tmp/sirius'' (host [''_JAVA_OPTIONS'' \<mapsto> ''-Dfoo=bar''])
     = (Inr \<lparr>path = ''/tmp/sirius'', get_path = ''/tmp/sirius''\<rparr>,
        snd (tmpdir ''/tmp/sirius'' (host [''_JAVA_OPTIONS'' \<mapsto> ''-Dfoo=bar''])))
   \<and> environ (snd (tmpdir ''/tmp/sirius'' (host [''_JAVA_OPTIONS'' \<mapsto> ''-Dfoo=bar'']))) ''_JAVA_OPTIONS''
       = environ (host [''_JAVA_OPTIONS'' \<mapsto> ''-Dfoo=bar'']) ''_JAVA_OPTIONS''
   \<and> ''/opt/sirius'' \<in> fs (snd (tmpdir ''/tmp/sirius'' (host [''_JAVA_OPTIONS'' \<mapsto> ''-Dfoo=bar''])))
   \<and> can_open (stub_platform 0) (path_join ''/tmp/sirius'' ''stdout.txt'')
   \<and> child (stub_platform 0) ([path_join ''/opt/sirius'' ''sirius'', ''-o'', ''/tmp/sirius''] @ [''--quiet'']) = Some 0
   \<and> fst (artifactory (stub_platform 0) ''/opt/sirius'' [''--quiet''] (Some ''-Xmx4g'')
            (Some (tmpdir ''/tmp/sirius'')) (host [''_JAVA_OPTIONS'' \<mapsto> ''-Dfoo=bar'']))
       = Inr \<lparr>path = ''/tmp/sirius'', get_path = ''/tmp/sirius''\<rparr>
   \<and> environ (snd (artifactory (stub_platform 0) ''/opt/sirius'' [''--quiet''] (Some ''-Xmx4g'')
            (Some (tmpdir ''/tmp/sirius'')) (host [''_JAVA_OPTIONS'' \<mapsto> ''-Dfoo=bar''])))
         ''_JAVA_OPTIONS''
       = Some ''-Dfoo=bar''"
proof -
  let ?s = "host [''_JAVA_OPTIONS'' \<mapsto> ''-Dfoo=bar'']"
  let ?h = "\<lparr>path = ''/tmp/sirius'', get_path = ''/tmp/sirius''\<rparr>"
  have a1: "tmpdir ''/tmp/sirius'' ?s = (Inr ?h, snd (tmpdir ''/tmp/sirius'' ?s))"
    by (rule host_ctor)
  have a2: "environ (snd (tmpdir ''/tmp/sirius'' ?s)) ''_JAVA_OPTIONS'' = environ ?s ''_JAVA_OPTIONS''"
    by (simp add: tmpdir_def)
  have a3: "''/opt/sirius'' \<in> fs (snd (tmpdir ''/tmp/sirius'' ?s))"
    by (simp add: tmpdir_def host_def)
  have a4: "can_open (stub_platform 0) (path_join (path ?h) ''stdout.txt'')"
    by (simp add: stub_platform_def)
  have a5: "child (stub_platform 0) ([path_join ''/opt/sirius'' ''sirius'', ''-o'', get_path ?h] @ [''--quiet'']) = Some 0"
    by (simp add: stub_platform_def)
  have v: "environ ?s ''_JAVA_OPTIONS'' = Some ''-Dfoo=bar''"
    by (simp add: host_def)
  show ?thesis
    using artifactory_restores_java_options [where c = "tmpdir ''/tmp/sirius''" and s = ?s,
            OF a1 a2 a3 a4 a5, of "''-Xmx4g''"] a1 a2 a3 a4 a5 v
    by simp
qed

text \<open>
  Claim C3 as stated fails when the variable is not set before the call: afterwards it
  is set, to the empty string.
\<close>

theorem artifactory_restores_java_options_counterexample:
  "environ (host Map.empty) ''_JAVA_OPTIONS'' = None
   \<and> fst (artifactory (stub_platform 0) ''/opt/sirius'' [''--quiet''] (Some ''-Xmx4g'')
            (Some (tmpdir ''/tmp/sirius'')) (host Map.empty))
       = Inr \<lparr>path = ''/tmp/sirius'', get_path = ''/tmp/sirius''\<rparr>
   \<and> environ (snd (artifactory (stub_platform 0) ''/opt/sirius'' [''--quiet''] (Some ''-Xmx4g'')
            (Some (tmpdir ''/tmp/sirius'')) (host Map.empty))) ''_JAVA_OPTIONS''
       = Some []
   \<and> environ (snd (artifactory (stub_platform 0) ''/opt/sirius'' [''--quiet''] (Some ''-Xmx4g'')
            (Some (tmpdir ''/tmp/sirius'')) (host Map.empty))) ''_JAVA_OPTIONS''
       \<noteq> environ (host Map.empty) ''_JAVA_OPTIONS''"
  by (simp add: artifactory_def run_command_def tmpdir_def host_def stub_platform_def
        path_exists_def environ_get_def environ_set_def print_out_def Let_def)

text \<open>
  Claim C4. With \<open>java_flags\<close> given and a constructor that leaves \<open>_JAVA_OPTIONS\<close> as
  it was before the call, when \<open>run_command\<close> raises (the output file does not open,
  the process cannot be started, or it returns a nonzero status) the error propagates
  and the assignment that restores the variable is not reached: \<open>_JAVA_OPTIONS\<close> holds
  its value from before the call (the empty string when it was not set), a space and
  the extra flags, which is neither that value nor what the variable was before the
  call.
\<close>

theorem artifactory_failure_keeps_java_options:
  assumes "c s = (Inr h, s1)"
    and "environ s1 ''_JAVA_OPTIONS'' = environ s ''_JAVA_OPTIONS''"
    and "sirius_path \<in> fs s1"
    and "\<not> can_open P (path_join (path h) ''stdout.txt'')
         \<or> child P ([path_join sirius_path ''sirius'', ''-o'', get_path h] @ ps) \<noteq> Some 0"
  shows "fst (artifactory P sirius_path ps (Some jf) (Some c) s) =
           Inl (if can_open P (path_join (path h) ''stdout.txt'')
                then case child P ([path_join sirius_path ''sirius'', ''-o'', get_path h] @ ps) of
                       None \<Rightarrow> SpawnError ([path_join sirius_path ''sirius'', ''-o'', get_path h] @ ps)
                     | Some rc \<Rightarrow> CalledProcessError rc
                         ([path_join sirius_path ''sirius'', ''-o'', get_path h] @ ps)
                else OpenError (path_join (path h) ''stdout.txt''))
       \<and> environ (snd (artifactory P sirius_path ps (Some jf) (Some c) s)) ''_JAVA_OPTIONS''
           = Some ((case environ s ''_JAVA_OPTIONS'' of None \<Rightarrow> [] | Some v \<Rightarrow> v) @ '' '' @ jf)
       \<and> environ (snd (artifactory P sirius_path ps (Some jf) (Some c) s)) ''_JAVA_OPTIONS''
           \<noteq> Some (case environ s ''_JAVA_OPTIONS'' of None \<Rightarrow> [] | Some v \<Rightarrow> v)
       \<and> environ (snd (artifactory P sirius_path ps (Some jf) (Some c) s)) ''_JAVA_OPTIONS''
           \<noteq> environ s ''_JAVA_OPTIONS''"
proof -
  let ?r = "artifactory P sirius_path ps (Some jf) (Some c) s"
  let ?v = "case environ s ''_JAVA_OPTIONS'' of None \<Rightarrow> [] | Some v \<Rightarrow> v"
  have g: "environ_get s1 ''_JAVA_OPTIONS'' [] = ?v"
    by (simp add: environ_get_def assms(2))
  have e: "environ (snd ?r) ''_JAVA_OPTIONS'' = Some (?v @ '' '' @ jf)"
    using artifactory_environ_failure(1) [where c = c and s = s, OF assms(1,3,4), of "Some jf"]
    by (simp add: environ_with_java_flags_Some g)
  have n: "?v @ '' '' @ jf \<noteq> ?v"
    by simp
  have m: "Some (?v @ '' '' @ jf) \<noteq> environ s ''_JAVA_OPTIONS''"
    by (cases "environ s ''_JAVA_OPTIONS''") simp_all
  show ?thesis
    using e n m artifactory_environ_failure(2) [where c = c and s = s, OF assms(1,3,4), of "Some jf"]
    by simp
qed

text \<open>
  With \<open>-Xmx4g\<close> and \<open>_JAVA_OPTIONS=-Dfoo=bar\<close>, against an executable that returns 1, the
  variable is \<open>-Dfoo=bar -Xmx4g\<close> after the failed call.
\<close>

theorem artifactory_failure_keeps_java_options_witness:
  "tmpdir ''/tmp/sirius'' (host [''_JAVA_OPTIONS'' \<mapsto> ''-Dfoo=bar''])
     = (Inr \<lparr>path = ''/tmp/sirius'', get_path = ''/tmp/sirius''\<rparr>,
        snd (tmpdir ''/tmp/sirius'' (host [''_JAVA_OPTIONS'' \<mapsto> ''-Dfoo=bar''])))
   \<and> environ (snd (tmpdir ''/tmp/sirius'' (host [''_JAVA_OPTIONS'' \<mapsto> ''-Dfoo=bar''])))
         ''_JAVA_OPTIONS''
       = environ (host [''_JAVA_OPTIONS'' \<mapsto> ''-Dfoo=bar'']) ''_JAVA_OPTIONS''
   \<and> environ (host [''_JAVA_OPTIONS'' \<mapsto> ''-Dfoo=bar'']) ''_JAVA_OPTIONS'' = Some ''-Dfoo=bar''
   \<and> ''/opt/sirius'' \<in> fs (snd (tmpdir ''/tmp/sirius'' (host [''_JAVA_OPTIONS'' \<mapsto> ''-Dfoo=bar''])))
   \<and> child (stub_platform 1) ([path_join ''/opt/sirius'' ''sirius'', ''-o'', ''/tmp/sirius''] @ [''--quiet'']) \<noteq> Some 0
   \<and> fst (artifactory (stub_platform 1) ''/opt/sirius'' [''--quiet''] (Some ''-Xmx4g'')
            (Some (tmpdir ''/tmp/sirius'')) (host [''_JAVA_OPTIONS'' \<mapsto> ''-Dfoo=bar'']))
       = Inl (CalledProcessError 1 [''/opt/sirius/sirius'', ''-o'', ''/tmp/sirius'', ''--quiet''])
   \<and> environ (snd (artifactory (stub_platform 1) ''/opt/sirius'' [''--quiet''] (Some ''-Xmx4g'')
            (Some (tmpdir ''/tmp/sirius'')) (host [''_JAVA_OPTIONS'' \<mapsto> ''-Dfoo=bar''])))
         ''_JAVA_OPTIONS''
       = Some ''-Dfoo=bar -Xmx4g''"
proof -
  let ?s = "host [''_JAVA_OPTIONS'' \<mapsto> ''-Dfoo=bar'']"
  let ?h = "\<lparr>path = ''/tmp/sirius'', get_path = ''/tmp/sirius''\<rparr>"
  have a1: "tmpdir ''/tmp/sirius'' ?s = (Inr ?h, snd (tmpdir ''/tmp/sirius'' ?s))"
    by (rule host_ctor)
  have a2: "environ (snd (tmpdir ''/tmp/sirius'' ?s)) ''_JAVA_OPTIONS'' = environ ?s ''_JAVA_OPTIONS''"
    by (simp add: tmpdir_def)
  have a3: "''/opt/sirius'' \<in> fs (snd (tmpdir ''/tmp/sirius'' ?s))"
    by (rule host_fs)
  have a4: "child (stub_platform 1) ([path_join ''/opt/sirius'' ''sirius'', ''-o'', get_path ?h] @ [''--quiet'']) \<noteq> Some 0"
    by (simp add: stub_platform_simps)
  have a4': "\<not> can_open (stub_platform 1) (path_join (path ?h) ''stdout.txt'')
         \<or> child (stub_platform 1) ([path_join ''/opt/sirius'' ''sirius'', ''-o'', get_path ?h] @ [''--quiet'']) \<noteq> Some 0"
    using a4 by simp
  have v: "environ ?s ''_JAVA_OPTIONS'' = Some ''-Dfoo=bar''"
    by (simp add: host_def)
  have j: "path_join ''/opt/sirius'' ''sirius'' = ''/opt/sirius/sirius''"
    by (simp add: path_join_def)
  show ?thesis
    using artifactory_failure_keeps_java_options [where c = "tmpdir ''/tmp/sirius''" and s = ?s,
            OF a1 a2 a3 a4', of "''-Xmx4g''"] a1 a2 a3 a4 v
    by (simp add: stub_platform_simps j)
qed

text \<open>
  Claim C10. When \<open>_JAVA_OPTIONS\<close> is not set before the call, the constructor leaves
  it as it was and \<open>java_flags\<close> is given, the child process inherits an environment
  where the variable is a space followed by the flags; after a successful call the
  variable is set to the empty string (two assignments were made, none removes it),
  after a failed one it keeps the space and the flags. When \<open>java_flags\<close> is not given,
  \<open>artifactory\<close> makes no assignment to the environment on any path: the environment and
  the assignments made are those the constructor left, hence those from before the call
  when the constructor makes none; without a constructor the call fails at once and
  leaves the world as it was.
\<close>

theorem artifactory_java_options_unset:
  "(c s = (Inr h, s1)
      \<and> environ s ''_JAVA_OPTIONS'' = None
      \<and> environ s1 ''_JAVA_OPTIONS'' = environ s ''_JAVA_OPTIONS''
      \<and> sirius_path \<in> fs s1
      \<and> can_open P (path_join (path h) ''stdout.txt'')
      \<and> child P ([path_join sirius_path ''sirius'', ''-o'', get_path h] @ ps) = Some rc \<longrightarrow>
      spawned (snd (artifactory P sirius_path ps (Some jf) (Some c) s)) =
        spawned s1 @ [([path_join sirius_path ''sirius'', ''-o'', get_path h] @ ps,
                       path_join (path h) ''stdout.txt'',
                       (environ s1)(''_JAVA_OPTIONS'' \<mapsto> '' '' @ jf))]
      \<and> environ (snd (artifactory P sirius_path ps (Some jf) (Some c) s)) ''_JAVA_OPTIONS''
          = Some (if rc = 0 then [] else '' '' @ jf)
      \<and> environ (snd (artifactory P sirius_path ps (Some jf) (Some c) s)) ''_JAVA_OPTIONS''
          \<noteq> environ s ''_JAVA_OPTIONS''
      \<and> env_writes (snd (artifactory P sirius_path ps (Some jf) (Some c) s))
          = env_writes s1 @
              (if rc = 0 then [(''_JAVA_OPTIONS'', '' '' @ jf), (''_JAVA_OPTIONS'', [])]
               else [(''_JAVA_OPTIONS'', '' '' @ jf)]))
   \<and> env_writes (snd (artifactory P sirius_path ps None (Some c) s)) = env_writes (snd (c s))
   \<and> environ (snd (artifactory P sirius_path ps None (Some c) s)) = environ (snd (c s))
   \<and> (environ (snd (c s)) = environ s \<and> env_writes (snd (c s)) = env_writes s \<longrightarrow>
        environ (snd (artifactory P sirius_path ps None (Some c) s)) = environ s
        \<and> env_writes (snd (artifactory P sirius_path ps None (Some c) s)) = env_writes s)
   \<and> artifactory P sirius_path ps None None s = (Inl TypeError, s)"
proof -
  have "spawned (snd (artifactory P sirius_path ps (Some jf) (Some c) s)) =
        spawned s1 @ [([path_join sirius_path ''sirius'', ''-o'', get_path h] @ ps,
                       path_join (path h) ''stdout.txt'',
                       (environ s1)(''_JAVA_OPTIONS'' \<mapsto> '' '' @ jf))]
      \<and> environ (snd (artifactory P sirius_path ps (Some jf) (Some c) s)) ''_JAVA_OPTIONS''
          = Some (if rc = 0 then [] else '' '' @ jf)
      \<and> environ (snd (artifactory P sirius_path ps (Some jf) (Some c) s)) ''_JAVA_OPTIONS''
          \<noteq> environ s ''_JAVA_OPTIONS''
      \<and> env_writes (snd (artifactory P sirius_path ps (Some jf) (Some c) s))
          = env_writes s1 @
              (if rc = 0 then [(''_JAVA_OPTIONS'', '' '' @ jf), (''_JAVA_OPTIONS'', [])]
               else [(''_JAVA_OPTIONS'', '' '' @ jf)])"
    if a: "c s = (Inr h, s1)" "sirius_path \<in> fs s1"
      "can_open P (path_join (path h) ''stdout.txt'')"
      "child P ([path_join sirius_path ''sirius'', ''-o'', get_path h] @ ps) = Some rc"
      and u: "environ s ''_JAVA_OPTIONS'' = None"
      and k: "environ s1 ''_JAVA_OPTIONS'' = environ s ''_JAVA_OPTIONS''"
  proof -
    have g: "environ_get s1 ''_JAVA_OPTIONS'' [] = []"
      by (simp add: environ_get_def u k)
    show ?thesis
      using artifactory_spawned [where c = c and s = s, OF a, of "Some jf"]
            artifactory_env_writes [where c = c and s = s, OF a, of jf]
      by (simp add: g u environ_with_java_flags_Some)
  qed
  moreover have "artifactory P sirius_path ps None None s = (Inl TypeError, s)"
    by (simp add: artifactory_def)
  ultimately show ?thesis
    using artifactory_without_flags [of P sirius_path ps c s] by metis
qed

theorem artifactory_java_options_unset_witness:
  "tmpdir ''/tmp/sirius'' (host Map.empty)
     = (Inr \<lparr>path = ''/tmp/sirius'', get_path = ''/tmp/sirius''\<rparr>,
        snd (tmpdir ''/tmp/sirius'' (host Map.empty)))
   \<and> environ (host Map.empty) ''_JAVA_OPTIONS'' = None
   \<and> environ (snd (tmpdir ''/tmp/sirius'' (host Map.empty))) = environ (host Map.empty)
   \<and> env_writes (snd (tmpdir ''/tmp/sirius'' (host Map.empty))) = env_writes (host Map.empty)
   \<and> ''/opt/sirius'' \<in> fs (snd (tmpdir ''/tmp/sirius'' (host Map.empty)))
   \<and> can_open (stub_platform 0) (path_join ''/tmp/sirius'' ''stdout.txt'')
   \<and> child (stub_platform 0)
        ([path_join ''/opt/sirius'' ''sirius'', ''-o'', ''/tmp/sirius''] @ [''--quiet'']) = Some 0
   \<and> spawned (snd (artifactory (stub_platform 0) ''/opt/sirius'' [''--quiet''] (Some ''-Xmx4g'')
                     (Some (tmpdir ''/tmp/sirius'')) (host Map.empty)))
       = [([''/opt/sirius/sirius'', ''-o'', ''/tmp/sirius'', ''--quiet''],
           ''/tmp/sirius/stdout.txt'', [''_JAVA_OPTIONS'' \<mapsto> '' -Xmx4g''])]
   \<and> environ (snd (artifactory (stub_platform 0) ''/opt/sirius'' [''--quiet''] (Some ''-Xmx4g'')
                     (Some (tmpdir ''/tmp/sirius'')) (host Map.empty))) ''_JAVA_OPTIONS''
       = Some []
   \<and> env_writes (snd (artifactory (stub_platform 0) ''/opt/sirius'' [''--quiet''] (Some ''-Xmx4g'')
                     (Some (tmpdir ''/tmp/sirius'')) (host Map.empty)))
       = [(''_JAVA_OPTIONS'', '' -Xmx4g''), (''_JAVA_OPTIONS'', [])]
   \<and> env_writes (snd (artifactory (stub_platform 0) ''/opt/sirius'' [''--quiet''] None
                     (Some (tmpdir ''/tmp/sirius'')) (host Map.empty)))
       = env_writes (host Map.empty)
   \<and> environ (snd (artifactory (stub_platform 0) ''/opt/sirius'' [''--quiet''] None
                     (Some (tmpdir ''/tmp/sirius'')) (host Map.empty)))
       = environ (host Map.empty)"
proof -
  let ?h = "\<lparr>path = ''/tmp/sirius'', get_path = ''/tmp/sirius''\<rparr>"
  let ?s1 = "snd (tmpdir ''/tmp/sirius'' (host Map.empty))"
  have a1: "tmpdir ''/tmp/sirius'' (host Map.empty) = (Inr ?h, ?s1)"
    by (rule host_ctor)
  have a2: "''/opt/sirius'' \<in> fs ?s1"
    by (rule host_fs)
  have u: "environ (host Map.empty) ''_JAVA_OPTIONS'' = None"
    by (simp add: host_def)
  have k: "environ ?s1 = environ (host Map.empty)" "env_writes ?s1 = env_writes (host Map.empty)"
    by (simp_all add: tmpdir_def)
  have j: "path_join ''/opt/sirius'' ''sirius'' = ''/opt/sirius/sirius''"
          "path_join ''/tmp/sirius'' ''stdout.txt'' = ''/tmp/sirius/stdout.txt''"
    by (simp_all add: path_join_def)
  have e: "environ (host Map.empty) = Map.empty" "env_writes (host Map.empty) = []"
    by (simp_all add: host_def)
  show ?thesis
    using artifactory_java_options_unset [where c = "tmpdir ''/tmp/sirius''"
            and s = "host Map.empty" and h = ?h and ?s1.0 = ?s1
            and P = "stub_platform 0" and ps = "[''--quiet'']" and jf = "''-Xmx4g''" and rc = 0
            and sirius_path = "''/opt/sirius''"] a1 a2 u k
    by (simp add: stub_platform_simps j host_spawned e)
qed

subsection \<open>The parameter lists of the stages\<close>

text \<open>
  Claim C8. \<open>compute_fragmentation_trees\<close> hands \<open>artifactory\<close> a list of 21 tokens of
  fixed shape, with the buffer sizes \<open>1\<close> and \<open>32\<close>, ending with \<open>--ppm-max\<close>, the decimal
  text of \<open>ppm_max\<close> and the path of \<open>features.mgf\<close> in the input directory; for
  \<open>ppm_max = 10\<close> the text is \<open>10\<close>. When the call starts a process, that list is what
  follows the executable, \<open>-o\<close> and the output directory in its command.
\<close>

theorem compute_fragmentation_trees_parameters:
  "compute_fragmentation_trees P sirius_path features ppm_max profile tree_timeout maxmz n_jobs
       num_candidates database ionization_mode java_flags s
     = artifactory P sirius_path
         [''--quiet'', ''--initial-compound-buffer'', ''1'', ''--max-compound-buffer'', ''32'',
          ''--profile'', profile, ''--database'', database,
          ''--candidates'', str_int num_candidates, ''--processors'', str_int n_jobs,
          ''--trust-ion-prediction'', ''--maxmz'', str_int maxmz,
          ''--tree-timeout'', str_int tree_timeout, ''--ppm-max'', str_int ppm_max,
          path_join (path features) ''features.mgf'']
         java_flags (Some (SiriusDirFmt P)) s
   \<and> compute_fragmentation_trees P sirius_path features 10 profile tree_timeout maxmz n_jobs
       num_candidates database ionization_mode java_flags s
     = artifactory P sirius_path
         [''--quiet'', ''--initial-compound-buffer'', ''1'', ''--max-compound-buffer'', ''32'',
          ''--profile'', profile, ''--database'', database,
          ''--candidates'', str_int num_candidates, ''--processors'', str_int n_jobs,
          ''--trust-ion-prediction'', ''--maxmz'', str_int maxmz,
          ''--tree-timeout'', str_int tree_timeout, ''--ppm-max'', ''10'',
          path_join (path features) ''features.mgf'']
         java_flags (Some (SiriusDirFmt P)) s
   \<and> (spawned (snd (compute_fragmentation_trees P sirius_path features ppm_max profile
                       tree_timeout maxmz n_jobs num_candidates database ionization_mode
                       java_flags s))
        \<noteq> spawned (snd (SiriusDirFmt P s)) \<longrightarrow>
      drop 3 (last_command (snd (compute_fragmentation_trees P sirius_path features ppm_max
                profile tree_timeout maxmz n_jobs num_candidates database ionization_mode
                java_flags s)))
        = [''--quiet'', ''--initial-compound-buffer'', ''1'', ''--max-compound-buffer'', ''32'',
           ''--profile'', profile, ''--database'', database,
           ''--candidates'', str_int num_candidates, ''--processors'', str_int n_jobs,
           ''--trust-ion-prediction'', ''--maxmz'', str_int maxmz,
           ''--tree-timeout'', str_int tree_timeout]
          @ [''--ppm-max'', str_int ppm_max, path_join (path features) ''features.mgf''])"
proof -
  have ten: "compute_fragmentation_trees P sirius_path features 10 profile tree_timeout maxmz
       n_jobs num_candidates database ionization_mode java_flags s
     = artifactory P sirius_path
         [''--quiet'', ''--initial-compound-buffer'', ''1'', ''--max-compound-buffer'', ''32'',
          ''--profile'', profile, ''--database'', database,
          ''--candidates'', str_int num_candidates, ''--processors'', str_int n_jobs,
          ''--trust-ion-prediction'', ''--maxmz'', str_int maxmz,
          ''--tree-timeout'', str_int tree_timeout, ''--ppm-max'', ''10'',
          path_join (path features) ''features.mgf'']
         java_flags (Some (SiriusDirFmt P)) s"
    by (simp add: compute_fragmentation_trees_unfold str_int_10)
  show ?thesis
    using ten artifactory_last_command [where c = "SiriusDirFmt P" and s = s and P = P]
    by (simp add: compute_fragmentation_trees_unfold)
qed

text \<open>
  The scenario of the specification, against an executable that always succeeds: the
  command ends with \<open>--ppm-max\<close>, \<open>10\<close> and the path of \<open>features.mgf\<close>, and the
  directory of the handle contains \<open>stdout.txt\<close>.
\<close>

theorem compute_fragmentation_trees_parameters_witness:
  "spawned (snd (compute_fragmentation_trees (stub_platform 0) ''/opt/sirius''
        \<lparr>path = ''/data/in'', get_path = ''/data/in''\<rparr> 10 ''orbitrap'' 1600 600 2 75 ''all''
        ''auto'' None (host Map.empty)))
     \<noteq> spawned (snd (SiriusDirFmt (stub_platform 0) (host Map.empty)))
   \<and> drop 3 (last_command (snd (compute_fragmentation_trees (stub_platform 0) ''/opt/sirius''
        \<lparr>path = ''/data/in'', get_path = ''/data/in''\<rparr> 10 ''orbitrap'' 1600 600 2 75 ''all''
        ''auto'' None (host Map.empty))))
     = [''--quiet'', ''--initial-compound-buffer'', ''1'', ''--max-compound-buffer'', ''32'',
        ''--profile'', ''orbitrap'', ''--database'', ''all'', ''--candidates'', ''75'',
        ''--processors'', ''2'', ''--trust-ion-prediction'', ''--maxmz'', ''600'',
        ''--tree-timeout'', ''1600'', ''--ppm-max'', ''10'', ''/data/in/features.mgf'']
   \<and> take 3 (last_command (snd (compute_fragmentation_trees (stub_platform 0) ''/opt/sirius''
        \<lparr>path = ''/data/in'', get_path = ''/data/in''\<rparr> 10 ''orbitrap'' 1600 600 2 75 ''all''
        ''auto'' None (host Map.empty))))
     = [''/opt/sirius/sirius'', ''-o'', ''/tmp/sirius'']
   \<and> ''/tmp/sirius/stdout.txt'' \<in> fs (snd (compute_fragmentation_trees (stub_platform 0)
        ''/opt/sirius'' \<lparr>path = ''/data/in'', get_path = ''/data/in''\<rparr> 10 ''orbitrap'' 1600 600
        2 75 ''all'' ''auto'' None (host Map.empty)))"
proof -
  let ?f = "\<lparr>path = ''/data/in'', get_path = ''/data/in''\<rparr>"
  let ?r = "compute_fragmentation_trees (stub_platform 0) ''/opt/sirius'' ?f 10 ''orbitrap''
              1600 600 2 75 ''all'' ''auto'' None (host Map.empty)"
  have started: "spawned (snd ?r) \<noteq> spawned (snd (SiriusDirFmt (stub_platform 0) (host Map.empty)))"
    unfolding compute_fragmentation_trees_unfold stub_platform_simps by (rule stub_started)
  have params: "drop 3 (last_command (snd ?r))
     = [''--quiet'', ''--initial-compound-buffer'', ''1'', ''--max-compound-buffer'', ''32'',
        ''--profile'', ''orbitrap'', ''--database'', ''all'', ''--candidates'', ''75'',
        ''--processors'', ''2'', ''--trust-ion-prediction'', ''--maxmz'', ''600'',
        ''--tree-timeout'', ''1600'', ''--ppm-max'', ''10'', ''/data/in/features.mgf'']"
    using compute_fragmentation_trees_parameters [where P = "stub_platform 0"
            and sirius_path = "''/opt/sirius''" and features = ?f and ppm_max = 10
            and profile = "''orbitrap''" and tree_timeout = 1600 and maxmz = 600 and n_jobs = 2
            and num_candidates = 75 and database = "''all''" and ionization_mode = "''auto''"
            and java_flags = None and s = "host Map.empty",
            THEN conjunct2, THEN conjunct2, THEN mp, OF started]
    by (simp add: str_int_examples str_int_10 path_join_features)
  have rest: "take 3 (last_command (snd ?r)) = [''/opt/sirius/sirius'', ''-o'', ''/tmp/sirius'']
              \<and> ''/tmp/sirius/stdout.txt'' \<in> fs (snd ?r)"
    unfolding compute_fragmentation_trees_unfold stub_platform_simps
    by (subst stub_run, subst stub_run) (simp add: last_command_def path_join_def)
  show ?thesis
    using started params rest by simp
qed

text \<open>
  Claim C7. For each stage, two calls with the same inputs, on any two platforms and in
  any two worlds, that each start a process, start it with the same parameters after
  the executable, \<open>-o\<close> and the output directory.
\<close>

theorem stage_parameters_deterministic:
  "(spawned (snd (compute_fragmentation_trees P sirius_path features ppm_max profile
                    tree_timeout maxmz n_jobs num_candidates database ionization_mode
                    java_flags s))
       \<noteq> spawned (snd (SiriusDirFmt P s))
     \<and> spawned (snd (compute_fragmentation_trees P' sirius_path features ppm_max profile
                    tree_timeout maxmz n_jobs num_candidates database ionization_mode
                    java_flags s'))
       \<noteq> spawned (snd (SiriusDirFmt P' s')) \<longrightarrow>
     drop 3 (last_command (snd (compute_fragmentation_trees P sirius_path features ppm_max
               profile tree_timeout maxmz n_jobs num_candidates database ionization_mode
               java_flags s)))
       = drop 3 (last_command (snd (compute_fragmentation_trees P' sirius_path features ppm_max
               profile tree_timeout maxmz n_jobs num_candidates database ionization_mode
               java_flags s'))))
   \<and> (spawned (snd (rerank_molecular_formulas P str_float sirius_path fragmentation_trees
                    features zodiac_threshold n_jobs java_flags s))
       \<noteq> spawned (snd (ZodiacDirFmt P s))
     \<and> spawned (snd (rerank_molecular_formulas P' str_float sirius_path fragmentation_trees
                    features zodiac_threshold n_jobs java_flags s'))
       \<noteq> spawned (snd (ZodiacDirFmt P' s')) \<longrightarrow>
     drop 3 (last_command (snd (rerank_molecular_formulas P str_float sirius_path
               fragmentation_trees features zodiac_threshold n_jobs java_flags s)))
       = drop 3 (last_command (snd (rerank_molecular_formulas P' str_float sirius_path
               fragmentation_trees features zodiac_threshold n_jobs java_flags s'))))
   \<and> (spawned (snd (predict_fingerprints P sirius_path molecular_formulas ppm_max n_jobs
                    fingerid_db java_flags s))
       \<noteq> spawned (snd (CSIDirFmt P s))
     \<and> spawned (snd (predict_fingerprints P' sirius_path molecular_formulas ppm_max n_jobs
                    fingerid_db java_flags s'))
       \<noteq> spawned (snd (CSIDirFmt P' s')) \<longrightarrow>
     drop 3 (last_command (snd (predict_fingerprints P sirius_path molecular_formulas ppm_max
               n_jobs fingerid_db java_flags s)))
       = drop 3 (last_command (snd (predict_fingerprints P' sirius_path molecular_formulas
               ppm_max n_jobs fingerid_db java_flags s'))))"
  unfolding compute_fragmentation_trees_unfold rerank_molecular_formulas_unfold
    predict_fingerprints_unfold
  using artifactory_last_command [where P = P and s = s]
        artifactory_last_command [where P = P' and s = s']
  by simp

theorem stage_parameters_deterministic_witness:
  "spawned (snd (compute_fragmentation_trees (stub_platform 0) ''/opt/sirius''
        \<lparr>path = ''/data/in'', get_path = ''/data/in''\<rparr> 10 ''orbitrap'' 1600 600 2 75 ''all''
        ''auto'' (Some ''-Xmx4g'') (host Map.empty)))
     \<noteq> spawned (snd (SiriusDirFmt (stub_platform 0) (host Map.empty)))
   \<and> spawned (snd (compute_fragmentation_trees (stub_platform 1) ''/opt/sirius''
        \<lparr>path = ''/data/in'', get_path = ''/data/in''\<rparr> 10 ''orbitrap'' 1600 600 2 75 ''all''
        ''auto'' (Some ''-Xmx4g'') (host [''_JAVA_OPTIONS'' \<mapsto> ''-Dfoo=bar''])))
     \<noteq> spawned (snd (SiriusDirFmt (stub_platform 1) (host [''_JAVA_OPTIONS'' \<mapsto> ''-Dfoo=bar''])))
   \<and> drop 3 (last_command (snd (compute_fragmentation_trees (stub_platform 0) ''/opt/sirius''
        \<lparr>path = ''/data/in'', get_path = ''/data/in''\<rparr> 10 ''orbitrap'' 1600 600 2 75 ''all''
        ''auto'' (Some ''-Xmx4g'') (host Map.empty))))
     = drop 3 (last_command (snd (compute_fragmentation_trees (stub_platform 1) ''/opt/sirius''
        \<lparr>path = ''/data/in'', get_path = ''/data/in''\<rparr> 10 ''orbitrap'' 1600 600 2 75 ''all''
        ''auto'' (Some ''-Xmx4g'') (host [''_JAVA_OPTIONS'' \<mapsto> ''-Dfoo=bar'']))))
   \<and> spawned (snd (rerank_molecular_formulas (stub_platform 0) (\<lambda>x. x) ''/opt/sirius''
        \<lparr>path = ''/data/trees'', get_path = ''/data/trees''\<rparr>
        \<lparr>path = ''/data/in'', get_path = ''/data/in''\<rparr> ''0.95'' 2 (Some ''-Xmx4g'')
        (host Map.empty)))
     \<noteq> spawned (snd (ZodiacDirFmt (stub_platform 0) (host Map.empty)))
   \<and> spawned (snd (rerank_molecular_formulas (stub_platform 1) (\<lambda>x. x) ''/opt/sirius''
        \<lparr>path = ''/data/trees'', get_path = ''/data/trees''\<rparr>
        \<lparr>path = ''/data/in'', get_path = ''/data/in''\<rparr> ''0.95'' 2 (Some ''-Xmx4g'')
        (host [''_JAVA_OPTIONS'' \<mapsto> ''-Dfoo=bar''])))
     \<noteq> spawned (snd (ZodiacDirFmt (stub_platform 1) (host [''_JAVA_OPTIONS'' \<mapsto> ''-Dfoo=bar''])))
   \<and> drop 3 (last_command (snd (rerank_molecular_formulas (stub_platform 0) (\<lambda>x. x)
        ''/opt/sirius'' \<lparr>path = ''/data/trees'', get_path = ''/data/trees''\<rparr>
        \<lparr>path = ''/data/in'', get_path = ''/data/in''\<rparr> ''0.95'' 2 (Some ''-Xmx4g'')
        (host Map.empty))))
     = drop 3 (last_command (snd (rerank_molecular_formulas (stub_platform 1) (\<lambda>x. x)
        ''/opt/sirius'' \<lparr>path = ''/data/trees'', get_path = ''/data/trees''\<rparr>
        \<lparr>path = ''/data/in'', get_path = ''/data/in''\<rparr> ''0.95'' 2 (Some ''-Xmx4g'')
        (host [''_JAVA_OPTIONS'' \<mapsto> ''-Dfoo=bar'']))))
   \<and> spawned (snd (predict_fingerprints (stub_platform 0) ''/opt/sirius''
        \<lparr>path = ''/data/formulas'', get_path = ''/data/formulas''\<rparr> 10 2 ''pubchem''
        (Some ''-Xmx4g'') (host Map.empty)))
     \<noteq> spawned (snd (CSIDirFmt (stub_platform 0) (host Map.empty)))
   \<and> spawned (snd (predict_fingerprints (stub_platform 1) ''/opt/sirius''
        \<lparr>path = ''/data/formulas'', get_path = ''/data/formulas''\<rparr> 10 2 ''pubchem''
        (Some ''-Xmx4g'') (host [''_JAVA_OPTIONS'' \<mapsto> ''-Dfoo=bar''])))
     \<noteq> spawned (snd (CSIDirFmt (stub_platform 1) (host [''_JAVA_OPTIONS'' \<mapsto> ''-Dfoo=bar''])))
   \<and> drop 3 (last_command (snd (predict_fingerprints (stub_platform 0) ''/opt/sirius''
        \<lparr>path = ''/data/formulas'', get_path = ''/data/formulas''\<rparr> 10 2 ''pubchem''
        (Some ''-Xmx4g'') (host Map.empty))))
     = drop 3 (last_command (snd (predict_fingerprints (stub_platform 1) ''/opt/sirius''
        \<lparr>path = ''/data/formulas'', get_path = ''/data/formulas''\<rparr> 10 2 ''pubchem''
        (Some ''-Xmx4g'') (host [''_JAVA_OPTIONS'' \<mapsto> ''-Dfoo=bar'']))))"
proof -
  let ?s = "host Map.empty"
  let ?s' = "host [''_JAVA_OPTIONS'' \<mapsto> ''-Dfoo=bar'']"
  let ?f = "\<lparr>path = ''/data/in'', get_path = ''/data/in''\<rparr>"
  let ?t = "\<lparr>path = ''/data/trees'', get_path = ''/data/trees''\<rparr>"
  let ?m = "\<lparr>path = ''/data/formulas'', get_path = ''/data/formulas''\<rparr>"
  have c: "spawned (snd (compute_fragmentation_trees (stub_platform rc) ''/opt/sirius'' ?f 10
             ''orbitrap'' 1600 600 2 75 ''all'' ''auto'' (Some ''-Xmx4g'') (host env)))
           \<noteq> spawned (snd (SiriusDirFmt (stub_platform rc) (host env)))" for rc env
    unfolding compute_fragmentation_trees_unfold stub_platform_simps by (rule stub_started)
  have r: "spawned (snd (rerank_molecular_formulas (stub_platform rc) (\<lambda>x. x) ''/opt/sirius'' ?t
             ?f ''0.95'' 2 (Some ''-Xmx4g'') (host env)))
           \<noteq> spawned (snd (ZodiacDirFmt (stub_platform rc) (host env)))" for rc env
    unfolding rerank_molecular_formulas_unfold stub_platform_simps by (rule stub_started)
  have p: "spawned (snd (predict_fingerprints (stub_platform rc) ''/opt/sirius'' ?m 10 2
             ''pubchem'' (Some ''-Xmx4g'') (host env)))
           \<noteq> spawned (snd (CSIDirFmt (stub_platform rc) (host env)))" for rc env
    unfolding predict_fingerprints_unfold stub_platform_simps by (rule stub_started)
  show ?thesis
    using stage_parameters_deterministic [where P = "stub_platform 0" and P' = "stub_platform 1"
            and s = ?s and s' = ?s' and sirius_path = "''/opt/sirius''" and features = ?f
            and ppm_max = 10 and profile = "''orbitrap''" and tree_timeout = 1600
            and maxmz = 600 and n_jobs = 2 and num_candidates = 75 and database = "''all''"
            and ionization_mode = "''auto''" and java_flags = "Some ''-Xmx4g''"
            and str_float = "\<lambda>x. x" and fragmentation_trees = ?t
            and zodiac_threshold = "''0.95''" and molecular_formulas = ?m
            and fingerid_db = "''pubchem''"]
          c [of 0 Map.empty] c [of 1 "[''_JAVA_OPTIONS'' \<mapsto> ''-Dfoo=bar'']"]
          r [of 0 Map.empty] r [of 1 "[''_JAVA_OPTIONS'' \<mapsto> ''-Dfoo=bar'']"]
          p [of 0 Map.empty] p [of 1 "[''_JAVA_OPTIONS'' \<mapsto> ''-Dfoo=bar'']"]
    by blast
qed

subsection \<open>The ionization mode\<close>

text \<open>
  Claim C1 at \<open>ionization_mode = 'negative'\<close>. The flag \<open>--ion=[M-H]-\<close> is computed, and
  the command of the process the call starts does not contain it: \<open>ionization_flag\<close> is
  assigned and never read.
\<close>

theorem compute_fragmentation_trees_drops_ionization_flag:
  "ionization_flag ''negative'' = Some ''--ion=[M-H]-''
   \<and> fst (compute_fragmentation_trees (stub_platform 0) ''/opt/sirius''
        \<lparr>path = ''/data/in'', get_path = ''/data/in''\<rparr> 10 ''orbitrap'' 1600 600 2 75 ''all''
        ''negative'' None (host Map.empty))
     = Inr \<lparr>path = ''/tmp/sirius'', get_path = ''/tmp/sirius''\<rparr>
   \<and> map fst (spawned (snd (compute_fragmentation_trees (stub_platform 0) ''/opt/sirius''
        \<lparr>path = ''/data/in'', get_path = ''/data/in''\<rparr> 10 ''orbitrap'' 1600 600 2 75 ''all''
        ''negative'' None (host Map.empty))))
     = [[''/opt/sirius/sirius'', ''-o'', ''/tmp/sirius'',
         ''--quiet'', ''--initial-compound-buffer'', ''1'', ''--max-compound-buffer'', ''32'',
         ''--profile'', ''orbitrap'', ''--database'', ''all'', ''--candidates'', ''75'',
         ''--processors'', ''2'', ''--trust-ion-prediction'', ''--maxmz'', ''600'',
         ''--tree-timeout'', ''1600'', ''--ppm-max'', ''10'', ''/data/in/features.mgf'']]
   \<and> ''--ion=[M-H]-'' \<notin> set (last_command (snd (compute_fragmentation_trees (stub_platform 0)
        ''/opt/sirius'' \<lparr>path = ''/data/in'', get_path = ''/data/in''\<rparr> 10 ''orbitrap'' 1600 600
        2 75 ''all'' ''negative'' None (host Map.empty))))"
proof -
  have flag: "ionization_flag ''negative'' = Some ''--ion=[M-H]-''"
    by (simp add: ionization_flag_def)
  show ?thesis
    unfolding compute_fragmentation_trees_unfold stub_platform_simps
    by (subst stub_run, subst stub_run, subst stub_run)
       (simp add: flag last_command_def str_int_examples str_int_10 path_join_features)
qed

text \<open>
  Claim C9. For a mode other than \<open>auto\<close>, \<open>positive\<close> and \<open>negative\<close> no flag is bound, and
  the call goes on as for any other mode: it hands \<open>artifactory\<close> the same parameter
  list and gives what the call with \<open>auto\<close> gives.
\<close>

theorem compute_fragmentation_trees_unrecognized_mode:
  assumes "ionization_mode \<notin> {''auto'', ''positive'', ''negative''}"
  shows "ionization_flag ionization_mode = None
       \<and> compute_fragmentation_trees P sirius_path features ppm_max profile tree_timeout maxmz
             n_jobs num_candidates database ionization_mode java_flags s
           = artifactory P sirius_path
               [''--quiet'', ''--initial-compound-buffer'', ''1'',
                ''--max-compound-buffer'', ''32'',
                ''--profile'', profile, ''--database'', database,
                ''--candidates'', str_int num_candidates, ''--processors'', str_int n_jobs,
                ''--trust-ion-prediction'', ''--maxmz'', str_int maxmz,
                ''--tree-timeout'', str_int tree_timeout, ''--ppm-max'', str_int ppm_max,
                path_join (path features) ''features.mgf'']
               java_flags (Some (SiriusDirFmt P)) s
       \<and> compute_fragmentation_trees P sirius_path features ppm_max profile tree_timeout maxmz
             n_jobs num_candidates database ionization_mode java_flags s
           = compute_fragmentation_trees P sirius_path features ppm_max profile tree_timeout
               maxmz n_jobs num_candidates database ''auto'' java_flags s"
proof -
  have "ionization_flag ionization_mode = None"
    using assms by (simp add: ionization_flag_def)
  then show ?thesis
    by (simp add: compute_fragmentation_trees_unfold)
qed

theorem compute_fragmentation_trees_unrecognized_mode_witness:
  "''neutral'' \<notin> {''auto'', ''positive'', ''negative''}
   \<and> ionization_flag ''neutral'' = None
   \<and> fst (compute_fragmentation_trees (stub_platform 0) ''/opt/sirius''
        \<lparr>path = ''/data/in'', get_path = ''/data/in''\<rparr> 10 ''orbitrap'' 1600 600 2 75 ''all''
        ''neutral'' None (host Map.empty))
     = Inr \<lparr>path = ''/tmp/sirius'', get_path = ''/tmp/sirius''\<rparr>
   \<and> last_command (snd (compute_fragmentation_trees (stub_platform 0) ''/opt/sirius''
        \<lparr>path = ''/data/in'', get_path = ''/data/in''\<rparr> 10 ''orbitrap'' 1600 600 2 75 ''all''
        ''neutral'' None (host Map.empty)))
     = [''/opt/sirius/sirius'', ''-o'', ''/tmp/sirius'',
        ''--quiet'', ''--initial-compound-buffer'', ''1'', ''--max-compound-buffer'', ''32'',
        ''--profile'', ''orbitrap'', ''--database'', ''all'', ''--candidates'', ''75'',
        ''--processors'', ''2'', ''--trust-ion-prediction'', ''--maxmz'', ''600'',
        ''--tree-timeout'', ''1600'', ''--ppm-max'', ''10'', ''/data/in/features.mgf'']"
proof -
  have m: "''neutral'' \<notin> {''auto'', ''positive'', ''negative''}"
    by simp
  note t = compute_fragmentation_trees_unrecognized_mode [OF m,
             where P = "stub_platform 0" and sirius_path = "''/opt/sirius''"
               and features = "\<lparr>path = ''/data/in'', get_path = ''/data/in''\<rparr>"
               and ppm_max = 10 and profile = "''orbitrap''" and tree_timeout = 1600
               and maxmz = 600 and n_jobs = 2 and num_candidates = 75 and database = "''all''"
               and java_flags = None and s = "host Map.empty"]
  show ?thesis
    unfolding t [THEN conjunct2, THEN conjunct1] stub_platform_simps
    by (subst stub_run, subst stub_run)
       (simp add: t [THEN conjunct1] last_command_def str_int_examples str_int_10
          path_join_features)
qed

end
